theory Spec2Isabelle
  imports Complex_Main "HOL-Library.AList" "HOL-Library.Multiset"
begin

section \<open>Python values reaching \<open>trm.doppler.map\<close>\<close>

text \<open>
  The module \<open>map.py\<close> is dynamically typed: every argument of \<open>Image.__init__\<close> may be
  any object. The model keeps the kinds of object the code tells apart: \<open>None\<close>, integers,
  floats (as reals), strings and numpy arrays. Python's \<open>float(s)\<close> on a string depends on
  the text of \<open>s\<close>; a string therefore carries, as its second component, what \<open>float(s)\<close>
  returns (\<open>None\<close> when it raises \<open>ValueError\<close>), so that nothing below rests on a
  particular parser.

  Floats are real numbers here: infinities and NaN (a float, the entry of an array, or
  the value \<open>float\<close> gives for the texts \<open>inf\<close> and \<open>nan\<close>) have no counterpart, and
  the rounding of a large integer to the nearest float is not modelled.

  A numpy array is its shape together with its entries in row-major order; \<open>ndim\<close> is the
  length of the shape. The entries are reals whatever the dtype.
\<close>

datatype ndarray = NdArray (shape: "nat list") (elems: "real list")

datatype pyval =
    PyNone
  | PyInt int
  | PyFloat real
  | PyStr string "real option"
  | PyArray ndarray

datatype pyerr =
    DopplerError
  | TypeError
  | ValueError
  | KeyError
  | IndexError
  | AttributeError
  | OverflowError

definition ndim :: "ndarray \<Rightarrow> nat" where
  "ndim a = length (shape a)"

text \<open>A real numpy array holds exactly as many entries as its shape says.\<close>

definition wf_ndarray :: "ndarray \<Rightarrow> bool" where
  "wf_ndarray a = (length (elems a) = prod_list (shape a))"

text \<open>\<open>len(a)\<close>: the extent of the first axis; a zero-dimensional array has no length.\<close>

definition py_len :: "ndarray \<Rightarrow> pyerr + nat" where
  "py_len a = (case shape a of [] \<Rightarrow> Inl TypeError | n # _ \<Rightarrow> Inr n)"

text \<open>
  An integer is too large for a float when rounding it to the nearest float would leave
  the range of the doubles, that is from \<open>2^1024 - 2^970\<close> on in absolute value;
  \<open>float\<close> then raises \<open>OverflowError\<close>.
\<close>

definition float_overflow :: "int \<Rightarrow> bool" where
  "float_overflow i = (\<bar>i\<bar> \<ge> 2 ^ 1024 - 2 ^ 970)"

text \<open>
  \<open>float(x)\<close>. An array converts only when it holds exactly one entry.
\<close>

fun py_float :: "pyval \<Rightarrow> pyerr + real" where
  "py_float PyNone = Inl TypeError"
| "py_float (PyInt i) = (if float_overflow i then Inl OverflowError else Inr (of_int i))"
| "py_float (PyFloat r) = Inr r"
| "py_float (PyStr s None) = Inl ValueError"
| "py_float (PyStr s (Some r)) = Inr r"
| "py_float (PyArray a) =
     (if prod_list (shape a) = 1 \<and> length (elems a) = 1 then Inr (hd (elems a))
      else Inl TypeError)"

section \<open>The class \<open>Image\<close>\<close>

text \<open>The attributes \<open>Image.__init__\<close> sets; \<open>scale\<close> is \<open>None\<close> or an array.\<close>

record image =
  data :: ndarray
  vxy :: pyval
  vz :: pyval
  wave :: ndarray
  gamma :: ndarray
  scale :: "ndarray option"

text \<open>
  Lines 56--61 and 63--68 of \<open>map.py\<close>: an array argument is kept when it has at most one
  dimension, anything else goes through \<open>np.array([float(x),])\<close>.
\<close>

definition as_line_array :: "pyval \<Rightarrow> pyerr + ndarray" where
  "as_line_array x =
     (case x of
        PyArray a \<Rightarrow> if ndim a > 1 then Inl DopplerError else Inr a
      | _ \<Rightarrow> (case py_float x of Inl e \<Rightarrow> Inl e | Inr r \<Rightarrow> Inr (NdArray [1] [r])))"

text \<open>
  Lines 73--84: the \<open>scale\<close> attribute, given \<open>self.wave\<close>. \<open>len(self.scale)\<close> is
  evaluated before \<open>len(self.wave)\<close>.
\<close>

definition scale_attr :: "pyval \<Rightarrow> ndarray \<Rightarrow> pyerr + ndarray option" where
  "scale_attr scale_in w =
     (case scale_in of
        PyArray s \<Rightarrow>
          if ndim s > 1 then Inl DopplerError
          else (case py_len s of Inl e \<Rightarrow> Inl e | Inr ls \<Rightarrow>
                (case py_len w of Inl e \<Rightarrow> Inl e | Inr lw \<Rightarrow>
                   if ls \<noteq> lw then Inl DopplerError else Inr (Some s)))
      | _ \<Rightarrow>
          (case py_len w of Inl e \<Rightarrow> Inl e | Inr lw \<Rightarrow>
             if lw > 1 then Inl DopplerError else Inr None))"

text \<open>
  \<open>Image.__init__(self, data, vxy, wave, gamma, scale=None, vz=None)\<close>. An exception
  leaves the caller without any object, so the result is either the error or the finished
  Image.
\<close>

definition Image_init ::
  "pyval \<Rightarrow> pyval \<Rightarrow> pyval \<Rightarrow> pyval \<Rightarrow> pyval \<Rightarrow> pyval \<Rightarrow> pyerr + image" where
  "Image_init data_in vxy_in wave_in gamma_in scale_in vz_in =
     (case data_in of
        PyArray d \<Rightarrow>
          if ndim d < 2 \<or> ndim d > 3 then Inl DopplerError
          else if ndim d = 3 \<and> vz_in = PyNone then Inl DopplerError
          else
            (case as_line_array wave_in of Inl e \<Rightarrow> Inl e | Inr w \<Rightarrow>
             (case as_line_array gamma_in of Inl e \<Rightarrow> Inl e | Inr g \<Rightarrow>
              (case py_len g of Inl e \<Rightarrow> Inl e | Inr lg \<Rightarrow>
               (case py_len w of Inl e \<Rightarrow> Inl e | Inr lw \<Rightarrow>
                  if lg \<noteq> lw then Inl DopplerError
                  else
                    (case scale_attr scale_in w of Inl e \<Rightarrow> Inl e | Inr sc \<Rightarrow>
                       Inr \<lparr> data = d, vxy = vxy_in, vz = vz_in,
                             wave = w, gamma = g, scale = sc \<rparr>)))))
      | _ \<Rightarrow> Inl DopplerError)"

section \<open>FITS headers and HDUs\<close>

text \<open>
  An \<open>astropy.io.fits.Header\<close> is an ordered list of cards: keyword, value, comment.
  \<open>head[k] = (v, c)\<close> overwrites the first card with keyword \<open>k\<close> or appends a new one;
  a value that is an array is refused with \<open>ValueError\<close>. The keywords written by
  \<open>Image.toHDU\<close> are ordinary ones; the commentary keywords (blank, \<open>COMMENT\<close>,
  \<open>HISTORY\<close>), which may repeat, are handled by \<open>add_commentary\<close> below.
\<close>

type_synonym card = "string \<times> pyval \<times> string"
type_synonym header = "card list"

definition header_setitem :: "header \<Rightarrow> string \<Rightarrow> pyval \<Rightarrow> string \<Rightarrow> pyerr + header" where
  "header_setitem h k v c =
     (case v of PyArray _ \<Rightarrow> Inl ValueError | _ \<Rightarrow> Inr (AList.update k (v, c) h))"

definition header_contains :: "header \<Rightarrow> string \<Rightarrow> bool" where
  "header_contains h k = (k \<in> set (map fst h))"

definition header_getitem :: "header \<Rightarrow> string \<Rightarrow> pyerr + pyval" where
  "header_getitem h k = (case map_of h k of None \<Rightarrow> Inl KeyError | Some (v, c) \<Rightarrow> Inr v)"

text \<open>
  An \<open>ImageHDU\<close> as the module uses it: the array (\<open>hdu.data\<close>, possibly \<open>None\<close>) and
  the header (\<open>hdu.header\<close>). The structural cards astropy adds by itself (\<open>XTENSION\<close>,
  \<open>BITPIX\<close>, \<open>NAXIS\<close>, ...) are never read by \<open>map.py\<close> and are left out.
\<close>

record hdu =
  hdu_data :: pyval
  hdu_header :: header

text \<open>\<open>str(n)\<close> of a non-negative integer: its decimal digits.\<close>

definition digit_char :: "nat \<Rightarrow> char" where
  "digit_char d = ''0123456789'' ! d"

fun str_nat :: "nat \<Rightarrow> string" where
  "str_nat n = (if n < 10 then [digit_char n] else str_nat (n div 10) @ [digit_char (n mod 10)])"

text \<open>
  Iterating over an array walks its first axis: a zero-dimensional array cannot be
  iterated, a one-dimensional one yields its entries, a higher one its sub-arrays.
\<close>

definition py_iter :: "ndarray \<Rightarrow> pyerr + pyval list" where
  "py_iter a =
     (case shape a of
        [] \<Rightarrow> Inl TypeError
      | [n] \<Rightarrow> Inr (map PyFloat (take n (elems a)))
      | n # rest \<Rightarrow>
          Inr (map (\<lambda>i. PyArray (NdArray rest
                 (take (prod_list rest) (drop (i * prod_list rest) (elems a))))) [0..<n]))"

text \<open>\<open>a[0]\<close>.\<close>

definition py_index0 :: "ndarray \<Rightarrow> pyerr + pyval" where
  "py_index0 a =
     (case shape a of
        [] \<Rightarrow> Inl IndexError
      | [n] \<Rightarrow> (case take n (elems a) of [] \<Rightarrow> Inl IndexError | x # _ \<Rightarrow> Inr (PyFloat x))
      | n # rest \<Rightarrow>
          if n = 0 then Inl IndexError
          else Inr (PyArray (NdArray rest (take (prod_list rest) (elems a)))))"

section \<open>\<open>Image.toHDU\<close>\<close>

text \<open>Lines 100--105: the loop over \<open>zip(self.wave, self.gamma, self.scale)\<close>, \<open>n\<close> counting from 1.\<close>

fun toHDU_lines :: "header \<Rightarrow> nat \<Rightarrow> (pyval \<times> pyval \<times> pyval) list \<Rightarrow> pyerr + header" where
  "toHDU_lines head n [] = Inr head"
| "toHDU_lines head n ((w, g, s) # rest) =
     (case header_setitem head (''WAVE'' @ str_nat n) w ''Central wavelength'' of
        Inl e \<Rightarrow> Inl e
      | Inr h1 \<Rightarrow>
     (case header_setitem h1 (''GAMMA'' @ str_nat n) g ''Systemic velocity, km/s'' of
        Inl e \<Rightarrow> Inl e
      | Inr h2 \<Rightarrow>
     (case header_setitem h2 (''SCALE'' @ str_nat n) s ''Scaling factor'' of
        Inl e \<Rightarrow> Inl e
      | Inr h3 \<Rightarrow> toHDU_lines h3 (n + 1) rest)))"

text \<open>
  Sequencing of steps that may raise: the first exception ends the computation.
\<close>

definition bind_err :: "pyerr + 'a \<Rightarrow> ('a \<Rightarrow> pyerr + 'b) \<Rightarrow> pyerr + 'b" where
  "bind_err m f = (case m of Inl e \<Rightarrow> Inl e | Inr x \<Rightarrow> f x)"

text \<open>The arguments of \<open>zip\<close> are made iterators from left to right.\<close>

definition zip_lines :: "image \<Rightarrow> pyerr + (pyval \<times> pyval \<times> pyval) list" where
  "zip_lines img =
     bind_err (py_iter (wave img)) (\<lambda>ws.
     bind_err (py_iter (gamma img)) (\<lambda>gs.
     bind_err (case scale img of None \<Rightarrow> Inl TypeError | Some s \<Rightarrow> py_iter s) (\<lambda>ss.
       Inr (zip ws (zip gs ss)))))"

definition toHDU :: "image \<Rightarrow> pyerr + hdu" where
  "toHDU img =
     bind_err (header_setitem [] ''TYPE'' (PyStr ''doppler.Image'' None) []) (\<lambda>h1.
     bind_err (header_setitem h1 ''VXY'' (vxy img) ''Vx-Vy pixel size, km/s'') (\<lambda>h2.
     bind_err (if ndim (data img) = 3
               then header_setitem h2 ''VZ'' (vz img) ''Vz pixel size, km/s''
               else Inr h2) (\<lambda>h3.
     bind_err (py_len (wave img)) (\<lambda>nwave.
     bind_err (header_setitem h3 ''NWAVE'' (PyInt (int nwave)) ''Number of wavelengths'') (\<lambda>h4.
     bind_err (if nwave > 1
               then bind_err (zip_lines img) (toHDU_lines h4 1)
               else
                 bind_err (py_index0 (wave img)) (\<lambda>w0.
                 bind_err (header_setitem h4 ''WAVE1'' w0 ''Central wavelength'') (\<lambda>h5.
                 bind_err (py_index0 (gamma img)) (\<lambda>g0.
                   header_setitem h5 ''GAMMA1'' g0 ''Systemic velocity, km/s'')))) (\<lambda>h6.
       Inr \<lparr> hdu_data = PyArray (data img), hdu_header = h6 \<rparr>))))))"

section \<open>\<open>Image.fromHDU\<close>\<close>

text \<open>
  \<open>np.empty((nwave))\<close>: a one-dimensional array of \<open>nwave\<close> entries. numpy leaves the
  entries uninitialised; the model fills them with 0, and lemma
  \<open>fromHDU_loop_initial_irrelevant\<close> shows that the fill never reaches the result.
\<close>

definition np_empty :: "pyval \<Rightarrow> pyerr + real list" where
  "np_empty n =
     (case n of
        PyInt i \<Rightarrow> if i < 0 then Inl ValueError else Inr (replicate (nat i) 0)
      | _ \<Rightarrow> Inl TypeError)"

text \<open>
  \<open>a[n] = head[key]\<close> for a float array \<open>a\<close>: the look-up, then the conversion to
  float. For the value \<open>None\<close> numpy stores NaN, which the reals of this model do not
  have; the model gives the \<open>TypeError\<close> of \<open>float(None)\<close> there.
\<close>

definition read_float :: "header \<Rightarrow> string \<Rightarrow> pyerr + real" where
  "read_float head key = bind_err (header_getitem head key) py_float"

text \<open>\<open>a[n] = v\<close> on a one-dimensional array; an index past the end raises.\<close>

definition set_item :: "real list \<Rightarrow> nat \<Rightarrow> real \<Rightarrow> pyerr + real list" where
  "set_item a n v = (if n < length a then Inr (a[n := v]) else Inl IndexError)"

text \<open>
  Lines 134--138: the loop over \<open>xrange(nwave)\<close>, given as the list of its indices.
  \<open>scale\<close> is touched only when \<open>nwave > 1\<close>, and then it is an array.
\<close>

fun fromHDU_loop ::
  "header \<Rightarrow> nat \<Rightarrow> nat list \<Rightarrow> real list \<Rightarrow> real list \<Rightarrow> real list option
     \<Rightarrow> pyerr + (real list \<times> real list \<times> real list option)" where
  "fromHDU_loop head nwave [] wv gm sc = Inr (wv, gm, sc)"
| "fromHDU_loop head nwave (n # ns) wv gm sc =
     (case read_float head (''WAVE'' @ str_nat (n + 1)) of Inl e \<Rightarrow> Inl e | Inr w \<Rightarrow>
     (case set_item wv n w of Inl e \<Rightarrow> Inl e | Inr wv' \<Rightarrow>
     (case read_float head (''GAMMA'' @ str_nat (n + 1)) of Inl e \<Rightarrow> Inl e | Inr g \<Rightarrow>
     (case set_item gm n g of Inl e \<Rightarrow> Inl e | Inr gm' \<Rightarrow>
        if nwave > 1 then
          (case read_float head (''SCALE'' @ str_nat (n + 1)) of Inl e \<Rightarrow> Inl e | Inr s \<Rightarrow>
          (case sc of None \<Rightarrow> Inl TypeError | Some xs \<Rightarrow>
          (case set_item xs n s of Inl e \<Rightarrow> Inl e | Inr xs' \<Rightarrow>
             fromHDU_loop head nwave ns wv' gm' (Some xs'))))
        else fromHDU_loop head nwave ns wv' gm' sc))))"

definition fromHDU :: "hdu \<Rightarrow> pyerr + image" where
  "fromHDU h =
     (let data_v = hdu_data h; head = hdu_header h in
      if \<not> header_contains head ''VXY'' \<or> \<not> header_contains head ''NWAVE''
         \<or> \<not> header_contains head ''WAVE1'' \<or> \<not> header_contains head ''GAMMA1''
      then Inl DopplerError
      else
        bind_err (header_getitem head ''VXY'') (\<lambda>vxy_v.
        bind_err (case data_v of PyArray d \<Rightarrow> Inr (ndim d) | _ \<Rightarrow> Inl AttributeError) (\<lambda>nd.
        bind_err (if nd = 3 then header_getitem head ''VZ'' else Inr PyNone) (\<lambda>vz_v.
        bind_err (header_getitem head ''NWAVE'') (\<lambda>nwave_v.
        bind_err (np_empty nwave_v) (\<lambda>wave0.
        bind_err (np_empty nwave_v) (\<lambda>gamma0.
          let nwave = length wave0;
              scale0 = (if nwave > 1 then Some (replicate nwave 0) else None)
          in
        bind_err (fromHDU_loop head nwave [0..<nwave] wave0 gamma0 scale0) (\<lambda>(wv, gm, sc).
          Image_init data_v vxy_v (PyArray (NdArray [nwave] wv)) (PyArray (NdArray [nwave] gm))
            (case sc of None \<Rightarrow> PyNone | Some s \<Rightarrow> PyArray (NdArray [nwave] s)) vz_v))))))))"

section \<open>The class \<open>Map\<close>\<close>

text \<open>
  \<open>Map.__init__\<close> receives a reference to the caller's header and works on a copy, so
  headers live in a store: the address of a header is its index in the list of all
  \<open>Header\<close> objects allocated so far, and a new object goes to the end of the list.
\<close>

type_synonym addr = nat
type_synonym store = "header list"

text \<open>The \<open>head\<close> argument: a reference to a \<open>fits.Header\<close>, or any other object.\<close>

datatype pyobj = HeaderObj addr | OtherObj

text \<open>
  The \<open>data\<close> argument: something \<open>enumerate\<close> can walk (its elements being Images or
  not), or an object that cannot be iterated, for which \<open>enumerate\<close> raises \<open>TypeError\<close>;
  an \<open>Image\<close> is such an object.
\<close>

datatype item = ImageItem image | OtherItem
datatype data_arg = Iterable "item list" | NonIterable item

record dmap =
  map_head :: addr
  map_data :: "image list"

text \<open>\<open>head.copy()\<close>: a new \<open>Header\<close> object with the same cards.\<close>

definition header_copy :: "store \<Rightarrow> addr \<Rightarrow> store \<times> addr" where
  "header_copy st a = (st @ [st ! a], length st)"

text \<open>
  Assigning to a commentary keyword never overwrites: the new card goes after the last
  card with the same keyword, or to the end of the header when there is none.
  \<open>add_blank\<close> does the same with the blank keyword.
\<close>

definition add_commentary :: "header \<Rightarrow> string \<Rightarrow> string \<Rightarrow> header" where
  "add_commentary h kw txt =
     (let c = (kw, PyStr txt None, []);
          after = rev (takeWhile (\<lambda>x. fst x \<noteq> kw) (rev h));
          before = rev (dropWhile (\<lambda>x. fst x \<noteq> kw) (rev h))
      in if kw \<in> set (map fst h) then before @ [c] @ after else h @ [c])"

text \<open>Lines 175--178, applied to the header at address \<open>a\<close> of the store.\<close>

definition add_provenance :: "header \<Rightarrow> header" where
  "add_provenance h =
     (let h1 = add_commentary h [] ''............................'';
          h2 = add_commentary h1 ''COMMENT'' ''This file contains Doppler images.'';
          h3 = add_commentary h2 ''COMMENT''
                 ''Images can be 2D or 3D; VXY and VZ are the X,Y and Z velocity scales''
      in add_commentary h3 ''HISTORY'' ''Created from a doppler.Map object'')"

text \<open>Lines 181--184: the loop stops at the first element that is not an Image.\<close>

fun check_images :: "item list \<Rightarrow> pyerr + image list" where
  "check_images [] = Inr []"
| "check_images (ImageItem i # xs) =
     (case check_images xs of Inl e \<Rightarrow> Inl e | Inr is \<Rightarrow> Inr (i # is))"
| "check_images (OtherItem # xs) = Inl DopplerError"

text \<open>
  \<open>Map.__init__(self, head, data)\<close>, from a store to the store it leaves behind and
  either the exception or the new Map. A reference outside the store denotes no
  \<open>Header\<close> object and fails the \<open>isinstance\<close> test.
\<close>

definition Map_init :: "store \<Rightarrow> pyobj \<Rightarrow> data_arg \<Rightarrow> store \<times> (pyerr + dmap)" where
  "Map_init st head data_in =
     (case head of
        OtherObj \<Rightarrow> (st, Inl DopplerError)
      | HeaderObj a \<Rightarrow>
          if \<not> a < length st then (st, Inl DopplerError)
          else
            (let (st1, a') = header_copy st a;
                 st2 = st1[a' := add_provenance (st1 ! a')]
             in case data_in of
                  Iterable xs \<Rightarrow>
                    (case check_images xs of
                       Inl e \<Rightarrow> (st2, Inl e)
                     | Inr is \<Rightarrow> (st2, Inr \<lparr> map_head = a', map_data = is \<rparr>))
                | NonIterable (ImageItem i) \<Rightarrow> (st2, Inr \<lparr> map_head = a', map_data = [i] \<rparr>)
                | NonIterable OtherItem \<Rightarrow> (st2, Inl DopplerError)))"

section \<open>Structurally malformed constructor input, in the specification's words\<close>

text \<open>
  The specification lists what makes the input of \<open>Image.__init__\<close> malformed: data is
  not a 2D or 3D numpy array; data is 3D but vz is absent; wave, gamma or scale has more
  than one dimension; gamma's length differs from wave's; a given scale array's length
  differs from wave's; wave has more than one entry without a scale array. The predicate
  below follows that list, not the code. A scalar counts as one entry, an array as the
  extent of its first axis; a zero-dimensional array has no length, and so differs in
  length from everything that has one.
\<close>

definition is_array :: "pyval \<Rightarrow> bool" where
  "is_array x = (case x of PyArray _ \<Rightarrow> True | _ \<Rightarrow> False)"

definition dims :: "pyval \<Rightarrow> nat option" where
  "dims x = (case x of PyArray a \<Rightarrow> Some (ndim a) | _ \<Rightarrow> None)"

definition more_than_1d :: "pyval \<Rightarrow> bool" where
  "more_than_1d x = (case dims x of Some n \<Rightarrow> n > 1 | None \<Rightarrow> False)"

definition line_count :: "pyval \<Rightarrow> nat option" where
  "line_count x =
     (case x of
        PyArray a \<Rightarrow> (case shape a of [] \<Rightarrow> None | n # _ \<Rightarrow> Some n)
      | _ \<Rightarrow> Some 1)"

definition lengths_differ :: "pyval \<Rightarrow> pyval \<Rightarrow> bool" where
  "lengths_differ x y = (line_count x \<noteq> line_count y)"

definition structurally_malformed ::
  "pyval \<Rightarrow> pyval \<Rightarrow> pyval \<Rightarrow> pyval \<Rightarrow> pyval \<Rightarrow> bool" where
  "structurally_malformed data_in vz_in wave_in gamma_in scale_in =
     ((dims data_in \<noteq> Some 2 \<and> dims data_in \<noteq> Some 3)
      \<or> (dims data_in = Some 3 \<and> vz_in = PyNone)
      \<or> more_than_1d wave_in \<or> more_than_1d gamma_in \<or> more_than_1d scale_in
      \<or> lengths_differ gamma_in wave_in
      \<or> (is_array scale_in \<and> lengths_differ scale_in wave_in)
      \<or> ((case line_count wave_in of Some n \<Rightarrow> n > 1 | None \<Rightarrow> False) \<and> \<not> is_array scale_in))"

text \<open>
  A wave or gamma argument of the documented kind: a number (something \<open>float\<close>
  accepts) or an array with at least one dimension. For \<open>scale\<close>, the arguments other
  than a zero-dimensional array.
\<close>

definition zero_dim_array :: "pyval \<Rightarrow> bool" where
  "zero_dim_array x = (dims x = Some 0)"

definition number_or_sized_array :: "pyval \<Rightarrow> bool" where
  "number_or_sized_array x =
     (case x of
        PyArray a \<Rightarrow> ndim a \<ge> 1
      | _ \<Rightarrow> (case py_float x of Inl _ \<Rightarrow> False | Inr _ \<Rightarrow> True))"

section \<open>The invariant of the data model, in the specification's words\<close>

text \<open>
  Section 3 of the specification: the number of lines is at least 1; scale factors are
  present iff there is more than one line; the layer velocity is defined iff the data
  are 3D.
\<close>

definition image_invariant :: "image \<Rightarrow> bool" where
  "image_invariant img =
     ((case py_len (wave img) of
         Inl _ \<Rightarrow> False
       | Inr n \<Rightarrow> n \<ge> 1 \<and> (scale img \<noteq> None \<longleftrightarrow> n > 1))
      \<and> (vz img \<noteq> PyNone \<longleftrightarrow> ndim (data img) = 3))"

text \<open>A velocity that is a number: a Python int or float.\<close>

definition is_number :: "pyval \<Rightarrow> bool" where
  "is_number v = (case v of PyInt _ \<Rightarrow> True | PyFloat _ \<Rightarrow> True | _ \<Rightarrow> False)"

text \<open>The arrays among the attributes of an Image are genuine numpy arrays.\<close>

definition wf_image :: "image \<Rightarrow> bool" where
  "wf_image img =
     (wf_ndarray (data img) \<and> wf_ndarray (wave img) \<and> wf_ndarray (gamma img)
      \<and> (case scale img of None \<Rightarrow> True | Some s \<Rightarrow> wf_ndarray s))"

section \<open>Projection, as far as the specification fixes it\<close>



section \<open>The script \<open>memit.py\<close>\<close>










section \<open>Command lines, as the usage message describes them\<close>







section \<open>Facts about \<open>Image.__init__\<close>\<close>

declare str_nat.simps [simp del]

lemma bind_err_simps [simp]:
  "bind_err (Inl e) f = Inl e" "bind_err (Inr x) f = f x"
  by (simp_all add: bind_err_def)

lemma bind_err_Inr: "bind_err m f = Inr y \<longleftrightarrow> (\<exists>x. m = Inr x \<and> f x = Inr y)"
  by (cases m) simp_all

lemma py_len_neq_doppler: "py_len a \<noteq> Inl DopplerError"
  by (cases "shape a") (simp_all add: py_len_def)

lemma as_line_array_doppler: "as_line_array x = Inl DopplerError \<longleftrightarrow> more_than_1d x"
proof (cases x)
  case (PyArray a)
  then show ?thesis by (simp add: as_line_array_def more_than_1d_def dims_def)
next
  case PyNone
  then show ?thesis by (simp add: as_line_array_def more_than_1d_def dims_def)
next
  case (PyInt i)
  then show ?thesis by (simp add: as_line_array_def more_than_1d_def dims_def)
next
  case (PyFloat r)
  then show ?thesis by (simp add: as_line_array_def more_than_1d_def dims_def)
next
  case (PyStr t f)
  then show ?thesis
    by (cases f) (simp_all add: as_line_array_def more_than_1d_def dims_def)
qed

lemma as_line_array_count:
  assumes "as_line_array x = Inr a" and "py_len a = Inr n"
  shows "line_count x = Some n \<and> shape a = [n]"
proof (cases x)
  case (PyArray b)
  with assms have "a = b" "\<not> 1 < ndim b"
    by (auto simp: as_line_array_def split: if_splits)
  with assms(2) PyArray show ?thesis
    by (cases "shape b") (auto simp: line_count_def py_len_def ndim_def)
next
  case PyNone
  with assms show ?thesis by (simp add: as_line_array_def)
next
  case (PyInt i)
  with assms show ?thesis
    by (auto simp: as_line_array_def line_count_def py_len_def split: if_splits)
next
  case (PyFloat r)
  with assms show ?thesis by (auto simp: as_line_array_def line_count_def py_len_def)
next
  case (PyStr t f)
  with assms show ?thesis
    by (cases f) (auto simp: as_line_array_def line_count_def py_len_def)
qed

lemma as_line_array_scalar:
  assumes "as_line_array x = Inr a" and "\<not> is_array x"
  shows "\<exists>r. py_float x = Inr r \<and> a = NdArray [1] [r]"
  using assms
  by (cases x) (auto simp: as_line_array_def is_array_def split: sum.splits)

lemma as_line_array_array:
  "as_line_array (PyArray b) = Inr a \<Longrightarrow> a = b"
  by (simp add: as_line_array_def split: if_splits)

lemma as_line_array_sized:
  assumes "number_or_sized_array x" and "\<not> more_than_1d x"
  shows "\<exists>a n. as_line_array x = Inr a \<and> py_len a = Inr n"
proof (cases x)
  case (PyArray b)
  with assms have "ndim b = 1"
    by (simp add: number_or_sized_array_def more_than_1d_def dims_def)
  then obtain n where "shape b = [n]"
    by (cases "shape b") (auto simp: ndim_def)
  with PyArray \<open>ndim b = 1\<close> show ?thesis
    by (simp add: as_line_array_def py_len_def)
next
  case PyNone
  with assms show ?thesis by (simp add: number_or_sized_array_def)
next
  case (PyInt i)
  with assms show ?thesis
    by (cases "float_overflow i")
      (simp_all add: number_or_sized_array_def as_line_array_def py_len_def)
next
  case (PyFloat r)
  then show ?thesis by (simp add: as_line_array_def py_len_def)
next
  case (PyStr t f)
  with assms show ?thesis
    by (cases f) (simp_all add: number_or_sized_array_def as_line_array_def py_len_def)
qed

lemma scale_attr_doppler:
  assumes "shape w = [lw]"
  shows "scale_attr s w = Inl DopplerError \<longleftrightarrow>
     more_than_1d s \<or> (is_array s \<and> (\<exists>m. line_count s = Some m \<and> m \<noteq> lw))
     \<or> (\<not> is_array s \<and> lw > 1)"
proof (cases s)
  case (PyArray b)
  show ?thesis
  proof (cases "shape b")
    case Nil
    with PyArray assms show ?thesis
      by (simp add: scale_attr_def more_than_1d_def dims_def ndim_def is_array_def
          line_count_def py_len_def)
  next
    case (Cons m r)
    with PyArray assms show ?thesis
      by (cases r) (auto simp add: scale_attr_def more_than_1d_def dims_def ndim_def is_array_def
          line_count_def py_len_def)
  qed
qed (use assms in \<open>simp_all add: scale_attr_def more_than_1d_def dims_def is_array_def py_len_def\<close>)

lemma scale_attr_Inr:
  "scale_attr s w = Inr sc \<Longrightarrow> py_len w = Inr lw \<Longrightarrow>
     (case sc of None \<Rightarrow> (\<forall>a. s \<noteq> PyArray a) \<and> lw \<le> 1
      | Some a \<Rightarrow> s = PyArray a \<and> shape a = [lw])"
  by (cases s)
    (auto simp: scale_attr_def ndim_def py_len_def split: if_splits sum.splits list.splits)

lemma Image_init_data_ok:
  assumes "d = PyArray da" and "ndim da = 2 \<or> ndim da = 3" and "ndim da = 3 \<longrightarrow> z \<noteq> PyNone"
  shows "Image_init d x w g s z =
     (case as_line_array w of Inl e \<Rightarrow> Inl e | Inr wa \<Rightarrow>
      (case as_line_array g of Inl e \<Rightarrow> Inl e | Inr ga \<Rightarrow>
       (case py_len ga of Inl e \<Rightarrow> Inl e | Inr lg \<Rightarrow>
        (case py_len wa of Inl e \<Rightarrow> Inl e | Inr lw \<Rightarrow>
           if lg \<noteq> lw then Inl DopplerError
           else
             (case scale_attr s wa of Inl e \<Rightarrow> Inl e | Inr sc \<Rightarrow>
                Inr \<lparr> data = da, vxy = x, vz = z, wave = wa, gamma = ga, scale = sc \<rparr>)))))"
  using assms by (auto simp: Image_init_def)

lemma Image_init_data_bad:
  assumes "(dims d \<noteq> Some 2 \<and> dims d \<noteq> Some 3) \<or> (dims d = Some 3 \<and> z = PyNone)"
  shows "Image_init d x w g s z = Inl DopplerError"
  using assms by (cases d) (auto simp: Image_init_def dims_def)

lemma data_ok_dims:
  assumes "\<not> ((dims d \<noteq> Some 2 \<and> dims d \<noteq> Some 3) \<or> (dims d = Some 3 \<and> z = PyNone))"
  shows "\<exists>da. d = PyArray da \<and> (ndim da = 2 \<or> ndim da = 3) \<and> (ndim da = 3 \<longrightarrow> z \<noteq> PyNone)"
  using assms by (cases d) (auto simp: dims_def)

text \<open>What a successful construction tells about the arguments and the new object.\<close>

lemma Image_init_Inr:
  assumes "Image_init d x w g s z = Inr img"
  shows "\<exists>da lw. d = PyArray da \<and> (ndim da = 2 \<or> ndim da = 3) \<and> (ndim da = 3 \<longrightarrow> z \<noteq> PyNone)
     \<and> as_line_array w = Inr (wave img) \<and> as_line_array g = Inr (gamma img)
     \<and> py_len (wave img) = Inr lw \<and> py_len (gamma img) = Inr lw
     \<and> scale_attr s (wave img) = Inr (scale img)
     \<and> data img = da \<and> vxy img = x \<and> vz img = z"
  using assms
  by (cases d) (auto simp: Image_init_def split: if_splits sum.splits)

lemma doppler_only_if_malformed:
  assumes D: "Image_init d x w g s z = Inl DopplerError"
  shows "structurally_malformed d z w g s"
proof (cases "(dims d \<noteq> Some 2 \<and> dims d \<noteq> Some 3) \<or> (dims d = Some 3 \<and> z = PyNone)")
  case True
  then show ?thesis by (auto simp: structurally_malformed_def)
next
  case False
  from data_ok_dims [OF False] obtain da where
    da: "d = PyArray da" "ndim da = 2 \<or> ndim da = 3" "ndim da = 3 \<longrightarrow> z \<noteq> PyNone"
    by blast
  note eq = Image_init_data_ok [OF da, of x w g s]
  show ?thesis
  proof (cases "as_line_array w")
    case (Inl e)
    with D eq have "more_than_1d w" by (simp add: as_line_array_doppler [symmetric])
    then show ?thesis by (simp add: structurally_malformed_def)
  next
    case wa: (Inr wa)
    show ?thesis
    proof (cases "as_line_array g")
      case (Inl e)
      with D eq wa have "more_than_1d g" by (simp add: as_line_array_doppler [symmetric])
      then show ?thesis by (simp add: structurally_malformed_def)
    next
      case ga: (Inr ga)
      show ?thesis
      proof (cases "py_len ga")
        case (Inl e)
        with D eq wa ga py_len_neq_doppler [of ga] show ?thesis by simp
      next
        case lg: (Inr lg)
        show ?thesis
        proof (cases "py_len wa")
          case (Inl e)
          with D eq wa ga lg py_len_neq_doppler [of wa] show ?thesis by simp
        next
          case lw: (Inr lw)
          from as_line_array_count [OF wa lw] have cw: "line_count w = Some lw" "shape wa = [lw]"
            by simp_all
          from as_line_array_count [OF ga lg] have cg: "line_count g = Some lg"
            by simp
          show ?thesis
          proof (cases "lg = lw")
            case False
            with cw cg have "lengths_differ g w" by (simp add: lengths_differ_def)
            then show ?thesis by (simp add: structurally_malformed_def)
          next
            case True
            with D eq wa ga lg lw have "scale_attr s wa = Inl DopplerError"
              by (simp split: sum.splits)
            with scale_attr_doppler [OF cw(2), of s]
            have "more_than_1d s \<or> (is_array s \<and> (\<exists>m. line_count s = Some m \<and> m \<noteq> lw))
                \<or> (\<not> is_array s \<and> lw > 1)"
              by simp
            with cw show ?thesis
              by (auto simp: structurally_malformed_def lengths_differ_def)
          qed
        qed
      qed
    qed
  qed
qed

lemma line_count_sized: "\<not> zero_dim_array x \<Longrightarrow> \<exists>m. line_count x = Some m"
  by (cases x; cases "shape (case x of PyArray a \<Rightarrow> a)")
    (auto simp: zero_dim_array_def dims_def ndim_def line_count_def)

lemma malformed_doppler:
  assumes nw: "number_or_sized_array w" and ng: "number_or_sized_array g"
    and ns: "\<not> zero_dim_array s"
    and M: "structurally_malformed d z w g s"
  shows "Image_init d x w g s z = Inl DopplerError"
proof (cases "(dims d \<noteq> Some 2 \<and> dims d \<noteq> Some 3) \<or> (dims d = Some 3 \<and> z = PyNone)")
  case True
  then show ?thesis by (rule Image_init_data_bad)
next
  case False
  from data_ok_dims [OF False] obtain da where
    da: "d = PyArray da" "ndim da = 2 \<or> ndim da = 3" "ndim da = 3 \<longrightarrow> z \<noteq> PyNone"
    by blast
  note eq = Image_init_data_ok [OF da, of x w g s]
  show ?thesis
  proof (cases "more_than_1d w")
    case True
    then have "as_line_array w = Inl DopplerError" by (simp add: as_line_array_doppler)
    with eq show ?thesis by simp
  next
    case w1: False
    from as_line_array_sized [OF nw w1] obtain wa lw where
      wa: "as_line_array w = Inr wa" and lw: "py_len wa = Inr lw" by blast
    from as_line_array_count [OF wa lw] have cw: "line_count w = Some lw" "shape wa = [lw]"
      by simp_all
    show ?thesis
    proof (cases "more_than_1d g")
      case True
      then have "as_line_array g = Inl DopplerError" by (simp add: as_line_array_doppler)
      with eq wa show ?thesis by simp
    next
      case g1: False
      from as_line_array_sized [OF ng g1] obtain ga lg where
        ga: "as_line_array g = Inr ga" and lg: "py_len ga = Inr lg" by blast
      from as_line_array_count [OF ga lg] have cg: "line_count g = Some lg"
        by simp
      show ?thesis
      proof (cases "lg = lw")
        case False
        with eq wa ga lg lw show ?thesis by simp
      next
        case True
        with cw cg have nd: "\<not> lengths_differ g w" by (simp add: lengths_differ_def)
        from line_count_sized [OF ns] obtain m where m: "line_count s = Some m" ..
        from M False w1 g1 nd cw m
        have "more_than_1d s \<or> (is_array s \<and> (\<exists>m. line_count s = Some m \<and> m \<noteq> lw))
                \<or> (\<not> is_array s \<and> lw > 1)"
          by (auto simp: structurally_malformed_def lengths_differ_def)
        with scale_attr_doppler [OF cw(2), of s] have "scale_attr s wa = Inl DopplerError"
          by simp
        with eq wa ga lg lw True show ?thesis by simp
      qed
    qed
  qed
qed

text \<open>
  The constructor never looks at the values of \<open>wave\<close>: a scalar wavelength of any
  sign, with a scalar \<open>gamma\<close> and 2D data, gives an Image that stores it unchanged, and
  for an array the outcome depends on its shape alone.
\<close>

lemma Image_init_wave_values_unused:
  "Image_init (PyArray (NdArray [ny, nx] px)) vx (PyFloat wl) (PyFloat gm) PyNone PyNone
     = Inr \<lparr> data = NdArray [ny, nx] px, vxy = vx, vz = PyNone,
             wave = NdArray [1] [wl], gamma = NdArray [1] [gm], scale = None \<rparr>
   \<and> (Image_init d x (PyArray (NdArray sh ws)) g s z = Inr img \<longrightarrow>
        Image_init d x (PyArray (NdArray sh ws')) g s z = Inr (img\<lparr>wave := NdArray sh ws'\<rparr>))"
proof (rule conjI)
  show "Image_init (PyArray (NdArray [ny, nx] px)) vx (PyFloat wl) (PyFloat gm) PyNone PyNone
     = Inr \<lparr> data = NdArray [ny, nx] px, vxy = vx, vz = PyNone,
             wave = NdArray [1] [wl], gamma = NdArray [1] [gm], scale = None \<rparr>"
    by (simp add: Image_init_def as_line_array_def scale_attr_def ndim_def py_len_def)
next
  show "Image_init d x (PyArray (NdArray sh ws)) g s z = Inr img \<longrightarrow>
        Image_init d x (PyArray (NdArray sh ws')) g s z = Inr (img\<lparr>wave := NdArray sh ws'\<rparr>)"
  proof
    assume ok: "Image_init d x (PyArray (NdArray sh ws)) g s z = Inr img"
    from Image_init_Inr [OF ok] obtain da lw where
      da: "d = PyArray da" "ndim da = 2 \<or> ndim da = 3" "ndim da = 3 \<longrightarrow> z \<noteq> PyNone"
      and w: "as_line_array (PyArray (NdArray sh ws)) = Inr (wave img)"
      and g: "as_line_array g = Inr (gamma img)"
      and lw: "py_len (wave img) = Inr lw" and lg: "py_len (gamma img) = Inr lw"
      and sc: "scale_attr s (wave img) = Inr (scale img)"
      and f: "data img = da" "vxy img = x" "vz img = z"
      by blast
    from w have wi: "wave img = NdArray sh ws" and n1: "\<not> 1 < length sh"
      by (auto simp: as_line_array_def ndim_def split: if_splits)
    from n1 have w': "as_line_array (PyArray (NdArray sh ws')) = Inr (NdArray sh ws')"
      by (simp add: as_line_array_def ndim_def)
    from lw wi have lw': "py_len (NdArray sh ws') = Inr lw"
      by (simp add: py_len_def)
    have pl: "py_len (NdArray sh ws') = py_len (NdArray sh ws)"
      by (simp add: py_len_def)
    have "scale_attr s (NdArray sh ws') = scale_attr s (NdArray sh ws)"
      unfolding scale_attr_def pl by (rule refl)
    with sc wi have sc': "scale_attr s (NdArray sh ws') = Inr (scale img)"
      by simp
    have "Image_init d x (PyArray (NdArray sh ws')) g s z
        = Inr \<lparr> data = da, vxy = x, vz = z, wave = NdArray sh ws',
                gamma = gamma img, scale = scale img \<rparr>"
      by (simp add: Image_init_data_ok [OF da] w' g lg lw' sc')
    with f show "Image_init d x (PyArray (NdArray sh ws')) g s z
        = Inr (img\<lparr>wave := NdArray sh ws'\<rparr>)"
      by simp
  qed
qed

lemma Image_init_accepts_negative_wave:
  "Image_init (PyArray (NdArray [2, 2] [1, 2, 3, 4])) (PyFloat 40)
      (PyFloat (- 486.2)) (PyFloat 100) PyNone PyNone
    = Inr \<lparr> data = NdArray [2, 2] [1, 2, 3, 4], vxy = PyFloat 40, vz = PyNone,
            wave = NdArray [1] [- 486.2], gamma = NdArray [1] [100], scale = None \<rparr>"
  by (simp add: Image_init_def as_line_array_def scale_attr_def ndim_def py_len_def)


section \<open>Claims about \<open>Image.__init__\<close>\<close>

text \<open>
  Claim C2, as the code has it. Every successfully constructed Image has a
  one-dimensional \<open>wave\<close> array and a one-dimensional \<open>gamma\<close> array of the same length.
  A \<open>wave\<close> argument that is an array is stored as it is, whatever its length; one that
  is not an array gives exactly one line.
\<close>

theorem Image_init_lines:
  assumes "Image_init d x w g s z = Inr img"
  shows "ndim (wave img) = 1 \<and> ndim (gamma img) = 1
       \<and> (\<exists>n. py_len (wave img) = Inr n \<and> py_len (gamma img) = Inr n)
       \<and> (\<forall>a. w = PyArray a \<longrightarrow> wave img = a)
       \<and> (\<not> is_array w \<longrightarrow> py_len (wave img) = Inr 1)"
proof -
  from Image_init_Inr [OF assms] obtain lw where
    w: "as_line_array w = Inr (wave img)" and g: "as_line_array g = Inr (gamma img)"
    and lw: "py_len (wave img) = Inr lw" and lg: "py_len (gamma img) = Inr lw"
    by blast
  from as_line_array_count [OF w lw] have sw: "shape (wave img) = [lw]" by simp
  from as_line_array_count [OF g lg] have sg: "shape (gamma img) = [lw]" by simp
  have "\<not> is_array w \<longrightarrow> py_len (wave img) = Inr 1"
    using as_line_array_scalar [OF w] by (auto simp: py_len_def)
  moreover have "\<forall>a. w = PyArray a \<longrightarrow> wave img = a"
    using w as_line_array_array by auto
  ultimately show ?thesis using sw sg lw lg
    by (simp add: ndim_def)
qed

text \<open>
  Witness for C2: the single-line image of the module's self-test,
  \<open>Image(data2, vxy, 468.6, 150.)\<close>, on a 2 by 2 grid.
\<close>

theorem Image_init_lines_witness:
  "Image_init (PyArray (NdArray [2, 2] [1, 2, 3, 4])) (PyFloat 40) (PyFloat 468.6) (PyFloat 150)
      PyNone PyNone
    = Inr \<lparr> data = NdArray [2, 2] [1, 2, 3, 4], vxy = PyFloat 40, vz = PyNone,
            wave = NdArray [1] [468.6], gamma = NdArray [1] [150], scale = None \<rparr>
   \<and> ndim (NdArray [1] [468.6]) = 1 \<and> py_len (NdArray [1] [468.6]) = Inr 1"
proof -
  have h: "Image_init (PyArray (NdArray [2, 2] [1, 2, 3, 4])) (PyFloat 40) (PyFloat 468.6)
      (PyFloat 150) PyNone PyNone
    = Inr \<lparr> data = NdArray [2, 2] [1, 2, 3, 4], vxy = PyFloat 40, vz = PyNone,
            wave = NdArray [1] [468.6], gamma = NdArray [1] [150], scale = None \<rparr>"
    by (simp add: Image_init_def as_line_array_def scale_attr_def ndim_def py_len_def)
  from Image_init_lines [OF h] h show ?thesis
    by (simp add: is_array_def)
qed

text \<open>
  Counterexample to C2 as stated: empty \<open>wave\<close> and \<open>gamma\<close> arrays (\<open>np.array([])\<close>)
  pass every check of the constructor, and the Image has no line at all.
\<close>

theorem Image_zero_lines_counterexample:
  "Image_init (PyArray (NdArray [2, 2] [1, 2, 3, 4])) (PyFloat 40)
      (PyArray (NdArray [0] [])) (PyArray (NdArray [0] [])) PyNone PyNone
    = Inr \<lparr> data = NdArray [2, 2] [1, 2, 3, 4], vxy = PyFloat 40, vz = PyNone,
            wave = NdArray [0] [], gamma = NdArray [0] [], scale = None \<rparr>
   \<and> py_len (NdArray [0] []) = Inr 0"
  by (simp add: Image_init_def as_line_array_def scale_attr_def ndim_def py_len_def)

text \<open>
  Claim C3, as the code has it. For every successfully constructed Image the \<open>scale\<close>
  attribute is set exactly when a \<open>scale\<close> array was passed, and it is then that array,
  one-dimensional and as long as \<open>wave\<close>. An Image with more than one wavelength always
  has it set; the converse does not hold.
\<close>

theorem Image_init_scale:
  assumes "Image_init d x w g s z = Inr img"
  shows "(scale img \<noteq> None \<longleftrightarrow> is_array s)
       \<and> (\<forall>a. scale img = Some a \<longrightarrow> s = PyArray a \<and> ndim a = 1 \<and> py_len a = py_len (wave img))
       \<and> (\<forall>n. py_len (wave img) = Inr n \<and> n > 1 \<longrightarrow> scale img \<noteq> None)"
proof -
  from Image_init_Inr [OF assms] obtain lw where
      lw: "py_len (wave img) = Inr lw"
    and sc: "scale_attr s (wave img) = Inr (scale img)"
    by blast
  from scale_attr_Inr [OF sc lw] lw show ?thesis
    by (cases "scale img") (auto simp: ndim_def py_len_def is_array_def split: pyval.splits)
qed

text \<open>
  Witness for C3: the two-line image of the module's self-test,
  \<open>Image(data1, vxy, wave1, gamma1, scale1)\<close>.
\<close>

theorem Image_init_scale_witness:
  "Image_init (PyArray (NdArray [2, 2] [1, 2, 3, 4])) (PyFloat 40)
      (PyArray (NdArray [2] [486.2, 434.0])) (PyArray (NdArray [2] [100, 100]))
      (PyArray (NdArray [2] [1, 0.5])) PyNone
    = Inr \<lparr> data = NdArray [2, 2] [1, 2, 3, 4], vxy = PyFloat 40, vz = PyNone,
            wave = NdArray [2] [486.2, 434.0], gamma = NdArray [2] [100, 100],
            scale = Some (NdArray [2] [1, 0.5]) \<rparr>
   \<and> is_array (PyArray (NdArray [2] [1, 0.5]))
   \<and> py_len (NdArray [2] [1, 0.5]) = py_len (NdArray [2] [486.2, 434.0])"
proof -
  have h: "Image_init (PyArray (NdArray [2, 2] [1, 2, 3, 4])) (PyFloat 40)
      (PyArray (NdArray [2] [486.2, 434.0])) (PyArray (NdArray [2] [100, 100]))
      (PyArray (NdArray [2] [1, 0.5])) PyNone
    = Inr \<lparr> data = NdArray [2, 2] [1, 2, 3, 4], vxy = PyFloat 40, vz = PyNone,
            wave = NdArray [2] [486.2, 434.0], gamma = NdArray [2] [100, 100],
            scale = Some (NdArray [2] [1, 0.5]) \<rparr>"
    by (simp add: Image_init_def as_line_array_def scale_attr_def ndim_def py_len_def)
  from Image_init_scale [OF h] h show ?thesis
    by simp
qed

text \<open>
  Counterexample to C3 as stated: a single wavelength together with a scale array of
  length 1 is accepted, and the Image with exactly one line carries a scale factor.
\<close>

theorem Image_one_line_scale_counterexample:
  "Image_init (PyArray (NdArray [2, 2] [1, 2, 3, 4])) (PyFloat 40)
      (PyFloat 486.2) (PyFloat 100) (PyArray (NdArray [1] [1])) PyNone
    = Inr \<lparr> data = NdArray [2, 2] [1, 2, 3, 4], vxy = PyFloat 40, vz = PyNone,
            wave = NdArray [1] [486.2], gamma = NdArray [1] [100],
            scale = Some (NdArray [1] [1]) \<rparr>
   \<and> py_len (NdArray [1] [486.2]) = Inr 1"
  by (simp add: Image_init_def as_line_array_def scale_attr_def ndim_def py_len_def)

text \<open>
  Claim C5, as the code has it. A \<open>DopplerError\<close> is raised only for input that is
  structurally malformed in the sense of the specification's list. When \<open>wave\<close> and
  \<open>gamma\<close> are each a number or an array with at least one dimension, and \<open>scale\<close>
  is not a zero-dimensional array, the converse holds too: every malformed input raises
  \<open>DopplerError\<close>. In either case an exception leaves no Image behind.
\<close>

theorem Image_init_DopplerError:
  "(Image_init d x w g s z = Inl DopplerError \<longrightarrow> structurally_malformed d z w g s)
   \<and> (number_or_sized_array w \<and> number_or_sized_array g \<and> \<not> zero_dim_array s \<longrightarrow>
        (Image_init d x w g s z = Inl DopplerError \<longleftrightarrow> structurally_malformed d z w g s))"
  using doppler_only_if_malformed [of d x w g s z] malformed_doppler [of w g s d z x]
  by blast

text \<open>
  Witness for C5: two wavelengths without scale factors, which the constructor refuses
  with \<open>DopplerError\<close>.
\<close>

theorem Image_init_DopplerError_witness:
  "Image_init (PyArray (NdArray [2, 2] [1, 2, 3, 4])) (PyFloat 40)
      (PyArray (NdArray [2] [486.2, 434.0])) (PyArray (NdArray [2] [100, 100])) PyNone PyNone
    = Inl DopplerError
   \<and> number_or_sized_array (PyArray (NdArray [2] [486.2, 434.0]))
   \<and> number_or_sized_array (PyArray (NdArray [2] [100, 100]))
   \<and> \<not> zero_dim_array PyNone
   \<and> structurally_malformed (PyArray (NdArray [2, 2] [1, 2, 3, 4])) PyNone
        (PyArray (NdArray [2] [486.2, 434.0])) (PyArray (NdArray [2] [100, 100])) PyNone"
proof -
  have n: "number_or_sized_array (PyArray (NdArray [2] [486.2, 434.0]))
      \<and> number_or_sized_array (PyArray (NdArray [2] [100, 100]))
      \<and> \<not> zero_dim_array PyNone"
    by (simp add: number_or_sized_array_def zero_dim_array_def dims_def ndim_def)
  have e: "Image_init (PyArray (NdArray [2, 2] [1, 2, 3, 4])) (PyFloat 40)
      (PyArray (NdArray [2] [486.2, 434.0])) (PyArray (NdArray [2] [100, 100])) PyNone PyNone
    = Inl DopplerError"
    by (simp add: Image_init_def as_line_array_def scale_attr_def ndim_def py_len_def)
  from Image_init_DopplerError [of "PyArray (NdArray [2, 2] [1, 2, 3, 4])" "PyFloat 40"
      "PyArray (NdArray [2] [486.2, 434.0])" "PyArray (NdArray [2] [100, 100])" PyNone PyNone]
    n e
  show ?thesis by simp
qed

text \<open>
  Counterexample to C5 as stated: with a zero-dimensional \<open>wave\<close> array and a
  two-dimensional \<open>scale\<close> array the input is malformed (scale has more than one
  dimension), but \<open>len(self.wave)\<close> on line 70 raises \<open>TypeError\<close> before \<open>scale\<close> is
  looked at, so no \<open>DopplerError\<close> is raised.
\<close>

theorem Image_init_TypeError_counterexample:
  "structurally_malformed (PyArray (NdArray [2, 2] [1, 2, 3, 4])) PyNone
     (PyArray (NdArray [] [486.2])) (PyFloat 100) (PyArray (NdArray [2, 2] [1, 1, 1, 1]))
   \<and> Image_init (PyArray (NdArray [2, 2] [1, 2, 3, 4])) (PyFloat 40)
     (PyArray (NdArray [] [486.2])) (PyFloat 100) (PyArray (NdArray [2, 2] [1, 1, 1, 1])) PyNone
     = Inl TypeError"
  by (simp add: structurally_malformed_def more_than_1d_def dims_def ndim_def
       Image_init_def as_line_array_def py_len_def)



section \<open>Facts about headers, \<open>toHDU\<close> and \<open>fromHDU\<close>\<close>

lemma digit_char_inj: "a < 10 \<Longrightarrow> b < 10 \<Longrightarrow> digit_char a = digit_char b \<Longrightarrow> a = b"
  by (simp add: digit_char_def nth_eq_iff_index_eq)

lemma str_nat_nonempty: "str_nat n \<noteq> []"
  by (subst str_nat.simps) simp

lemma str_nat_inj: "str_nat m = str_nat n \<Longrightarrow> m = n"
proof (induction m arbitrary: n rule: str_nat.induct)
  case (1 m)
  show ?case
  proof (cases "m < 10")
    case m: True
    show ?thesis
    proof (cases "n < 10")
      case True
      with m "1.prems" show ?thesis
        by (simp add: str_nat.simps [of m] str_nat.simps [of n] digit_char_inj)
    next
      case False
      with m "1.prems" str_nat_nonempty [of "n div 10"] show ?thesis
        by (simp add: str_nat.simps [of m] str_nat.simps [of n])
    qed
  next
    case m: False
    show ?thesis
    proof (cases "n < 10")
      case True
      with m "1.prems" str_nat_nonempty [of "m div 10"] show ?thesis
        by (simp add: str_nat.simps [of m] str_nat.simps [of n])
    next
      case False
      with m "1.prems" have e: "str_nat (m div 10) = str_nat (n div 10)"
        and d: "digit_char (m mod 10) = digit_char (n mod 10)"
        by (simp_all add: str_nat.simps [of m] str_nat.simps [of n])
      from "1.IH" [OF m e] have "m div 10 = n div 10" .
      moreover from d have "m mod 10 = n mod 10"
        by (rule digit_char_inj [rotated 2]) simp_all
      ultimately show ?thesis
        by (metis div_mult_mod_eq)
    qed
  qed
qed

lemma str_nat_eq_iff [simp]: "str_nat m = str_nat n \<longleftrightarrow> m = n"
  using str_nat_inj by blast

lemma toHDU_lines_ok:
  assumes "length gs = length ws" and "length ss = length ws"
  shows "\<exists>h'. toHDU_lines h k (zip (map PyFloat ws) (zip (map PyFloat gs) (map PyFloat ss))) = Inr h'
      \<and> (\<forall>i<length ws.
            map_of h' (''WAVE'' @ str_nat (k + i)) = Some (PyFloat (ws ! i), ''Central wavelength'')
          \<and> map_of h' (''GAMMA'' @ str_nat (k + i))
              = Some (PyFloat (gs ! i), ''Systemic velocity, km/s'')
          \<and> map_of h' (''SCALE'' @ str_nat (k + i)) = Some (PyFloat (ss ! i), ''Scaling factor''))
      \<and> (\<forall>key. (\<forall>i<length ws. key \<noteq> ''WAVE'' @ str_nat (k + i)
                    \<and> key \<noteq> ''GAMMA'' @ str_nat (k + i) \<and> key \<noteq> ''SCALE'' @ str_nat (k + i))
            \<longrightarrow> map_of h' key = map_of h key)"
  using assms
proof (induction ws arbitrary: gs ss h k)
  case Nil
  then show ?case by simp
next
  case (Cons w ws)
  from Cons.prems obtain g gs' s ss' where gs: "gs = g # gs'" and ss: "ss = s # ss'"
    and len: "length gs' = length ws" "length ss' = length ws"
    by (cases gs; cases ss) auto
  let ?h3 = "AList.update (''SCALE'' @ str_nat k) (PyFloat s, ''Scaling factor'')
              (AList.update (''GAMMA'' @ str_nat k) (PyFloat g, ''Systemic velocity, km/s'')
                (AList.update (''WAVE'' @ str_nat k) (PyFloat w, ''Central wavelength'') h))"
  from Cons.IH [OF len, of ?h3 "Suc k"] obtain h' where
    run: "toHDU_lines ?h3 (Suc k)
            (zip (map PyFloat ws) (zip (map PyFloat gs') (map PyFloat ss'))) = Inr h'"
    and set: "\<And>i. i < length ws \<Longrightarrow>
            map_of h' (''WAVE'' @ str_nat (Suc k + i)) = Some (PyFloat (ws ! i), ''Central wavelength'')
          \<and> map_of h' (''GAMMA'' @ str_nat (Suc k + i))
              = Some (PyFloat (gs' ! i), ''Systemic velocity, km/s'')
          \<and> map_of h' (''SCALE'' @ str_nat (Suc k + i)) = Some (PyFloat (ss' ! i), ''Scaling factor'')"
    and keep: "\<And>key. (\<forall>i<length ws. key \<noteq> ''WAVE'' @ str_nat (Suc k + i)
                    \<and> key \<noteq> ''GAMMA'' @ str_nat (Suc k + i) \<and> key \<noteq> ''SCALE'' @ str_nat (Suc k + i))
            \<Longrightarrow> map_of h' key = map_of ?h3 key"
    by blast
  have step: "toHDU_lines h k (zip (map PyFloat (w # ws)) (zip (map PyFloat gs) (map PyFloat ss)))
      = Inr h'"
    using run by (simp add: gs ss header_setitem_def)
  have first: "map_of h' (''WAVE'' @ str_nat k) = Some (PyFloat w, ''Central wavelength'')"
    "map_of h' (''GAMMA'' @ str_nat k) = Some (PyFloat g, ''Systemic velocity, km/s'')"
    "map_of h' (''SCALE'' @ str_nat k) = Some (PyFloat s, ''Scaling factor'')"
    by (simp_all add: keep AList.update_conv')
  have a: "map_of h' (''WAVE'' @ str_nat (k + i)) = Some (PyFloat ((w # ws) ! i), ''Central wavelength'')
          \<and> map_of h' (''GAMMA'' @ str_nat (k + i))
              = Some (PyFloat (gs ! i), ''Systemic velocity, km/s'')
          \<and> map_of h' (''SCALE'' @ str_nat (k + i)) = Some (PyFloat (ss ! i), ''Scaling factor'')"
    if "i < length (w # ws)" for i
  proof (cases i)
    case 0
    with first show ?thesis by (simp add: gs ss)
  next
    case (Suc j)
    with that set [of j] show ?thesis by (simp add: gs ss)
  qed
  have b: "map_of h' key = map_of h key"
    if k: "\<forall>i<length (w # ws). key \<noteq> ''WAVE'' @ str_nat (k + i)
                    \<and> key \<noteq> ''GAMMA'' @ str_nat (k + i) \<and> key \<noteq> ''SCALE'' @ str_nat (k + i)" for key
  proof -
    from k have "\<forall>i<length ws. key \<noteq> ''WAVE'' @ str_nat (Suc k + i)
                    \<and> key \<noteq> ''GAMMA'' @ str_nat (Suc k + i) \<and> key \<noteq> ''SCALE'' @ str_nat (Suc k + i)"
      by (metis Suc_less_eq add_Suc_shift length_Cons)
    then have "map_of h' key = map_of ?h3 key" by (rule keep)
    moreover from k have "key \<noteq> ''WAVE'' @ str_nat k \<and> key \<noteq> ''GAMMA'' @ str_nat k
        \<and> key \<noteq> ''SCALE'' @ str_nat k"
      by (metis add.right_neutral length_Cons zero_less_Suc)
    ultimately show ?thesis by (simp add: AList.update_conv')
  qed
  from step a b show ?case by blast
qed

lemma str_nat_1 [simp]: "str_nat (Suc 0) = ''1''"
  by (simp add: str_nat.simps digit_char_def)

lemma header_setitem_number:
  "is_number v \<Longrightarrow> header_setitem h k v c = Inr (AList.update k (v, c) h)"
  by (cases v) (simp_all add: header_setitem_def is_number_def)

lemma header_setitem_simps [simp]:
  "header_setitem h k (PyFloat r) c = Inr (AList.update k (PyFloat r, c) h)"
  "header_setitem h k (PyInt i) c = Inr (AList.update k (PyInt i, c) h)"
  "header_setitem h k (PyStr t f) c = Inr (AList.update k (PyStr t f, c) h)"
  by (simp_all add: header_setitem_def)

lemma header_contains_map_of: "header_contains h k \<longleftrightarrow> map_of h k \<noteq> None"
  by (simp add: header_contains_def map_of_eq_None_iff)

lemma fold_update_nth:
  "i < length l \<Longrightarrow>
     length (fold (\<lambda>n l. l[n := f n]) ns l) = length l
     \<and> fold (\<lambda>n l. l[n := f n]) ns l ! i = (if i \<in> set ns then f i else l ! i)"
  by (induction ns arbitrary: l) (auto simp: nth_list_update)

lemma fold_update_upt:
  assumes "length l = length xs"
  shows "fold (\<lambda>n l. l[n := xs ! n]) [0..<length xs] l = xs"
proof (rule nth_equalityI)
  show len: "length (fold (\<lambda>n l. l[n := xs ! n]) [0..<length xs] l) = length xs"
  proof (cases xs)
    case Nil
    with assms show ?thesis by simp
  next
    case (Cons a as)
    with assms have "0 < length l" by simp
    from fold_update_nth [OF this] assms show ?thesis by simp
  qed
  fix i assume "i < length (fold (\<lambda>n l. l[n := xs ! n]) [0..<length xs] l)"
  with len assms have i: "i < length l" "i < length xs" by simp_all
  from fold_update_nth [OF i(1), of "\<lambda>n. xs ! n" "[0..<length xs]"] i(2)
  show "fold (\<lambda>n l. l[n := xs ! n]) [0..<length xs] l ! i = xs ! i"
    by simp
qed

lemma fromHDU_loop_ok:
  assumes "\<forall>n \<in> set ns. n < m
      \<and> read_float head (''WAVE'' @ str_nat (Suc n)) = Inr (fw n)
      \<and> read_float head (''GAMMA'' @ str_nat (Suc n)) = Inr (fg n)
      \<and> (nwave > 1 \<longrightarrow> read_float head (''SCALE'' @ str_nat (Suc n)) = Inr (fs n))"
    and "length wv = m" and "length gm = m"
    and "nwave > 1 \<longrightarrow> (\<exists>xs. sc = Some xs \<and> length xs = m)"
  shows "fromHDU_loop head nwave ns wv gm sc =
     Inr (fold (\<lambda>n l. l[n := fw n]) ns wv, fold (\<lambda>n l. l[n := fg n]) ns gm,
          if nwave > 1 then map_option (fold (\<lambda>n l. l[n := fs n]) ns) sc else sc)"
  using assms
proof (induction ns arbitrary: wv gm sc)
  case Nil
  then show ?case by (auto simp: option.map_ident)
next
  case (Cons n ns)
  show ?case
  proof (cases "nwave > 1")
    case True
    with Cons.prems obtain xs where xs: "sc = Some xs" "length xs = m" by blast
    have "fromHDU_loop head nwave ns (wv[n := fw n]) (gm[n := fg n]) (Some (xs[n := fs n])) =
       Inr (fold (\<lambda>n l. l[n := fw n]) ns (wv[n := fw n]), fold (\<lambda>n l. l[n := fg n]) ns (gm[n := fg n]),
          if nwave > 1 then map_option (fold (\<lambda>n l. l[n := fs n]) ns) (Some (xs[n := fs n]))
          else Some (xs[n := fs n]))"
      using Cons.prems xs by (intro Cons.IH) auto
    with Cons.prems True xs show ?thesis
      by (simp add: set_item_def)
  next
    case False
    have "fromHDU_loop head nwave ns (wv[n := fw n]) (gm[n := fg n]) sc =
       Inr (fold (\<lambda>n l. l[n := fw n]) ns (wv[n := fw n]), fold (\<lambda>n l. l[n := fg n]) ns (gm[n := fg n]),
          if nwave > 1 then map_option (fold (\<lambda>n l. l[n := fs n]) ns) sc else sc)"
      using Cons.prems False by (intro Cons.IH) auto
    with Cons.prems False show ?thesis
      by (simp add: set_item_def)
  qed
qed

lemma py_iter_1d: "shape a = [n] \<Longrightarrow> length (elems a) = n \<Longrightarrow> py_iter a = Inr (map PyFloat (elems a))"
  by (simp add: py_iter_def)

lemma py_index0_1d:
  "shape a = [n] \<Longrightarrow> length (elems a) = n \<Longrightarrow> n \<ge> 1 \<Longrightarrow> py_index0 a = Inr (PyFloat (elems a ! 0))"
  by (cases "elems a") (auto simp: py_index0_def)

lemma toHDU_header:
  assumes w: "shape (wave img) = [n]" "length (elems (wave img)) = n"
    and g: "shape (gamma img) = [n]" "length (elems (gamma img)) = n"
    and n: "n \<ge> 1"
    and s: "n > 1 \<longrightarrow> (\<exists>a. scale img = Some a \<and> shape a = [n] \<and> length (elems a) = n)"
    and x: "is_number (vxy img)"
    and z: "ndim (data img) = 3 \<longrightarrow> is_number (vz img)"
  shows "\<exists>H. toHDU img = Inr \<lparr> hdu_data = PyArray (data img), hdu_header = H \<rparr>
     \<and> (\<exists>c. map_of H ''VXY'' = Some (vxy img, c))
     \<and> (ndim (data img) = 3 \<longrightarrow> (\<exists>c. map_of H ''VZ'' = Some (vz img, c)))
     \<and> (\<exists>c. map_of H ''NWAVE'' = Some (PyInt (int n), c))
     \<and> (\<forall>i<n. (\<exists>c. map_of H (''WAVE'' @ str_nat (Suc i)) = Some (PyFloat (elems (wave img) ! i), c))
             \<and> (\<exists>c. map_of H (''GAMMA'' @ str_nat (Suc i)) = Some (PyFloat (elems (gamma img) ! i), c)))
     \<and> (n > 1 \<longrightarrow> (\<forall>i<n. \<exists>c. map_of H (''SCALE'' @ str_nat (Suc i))
                         = Some (PyFloat (elems (the (scale img)) ! i), c)))"
proof -
  let ?h1 = "AList.update ''TYPE'' (PyStr ''doppler.Image'' None, []) []"
  let ?h2 = "AList.update ''VXY'' (vxy img, ''Vx-Vy pixel size, km/s'') ?h1"
  let ?h3 = "if ndim (data img) = 3
             then AList.update ''VZ'' (vz img, ''Vz pixel size, km/s'') ?h2 else ?h2"
  let ?h4 = "AList.update ''NWAVE'' (PyInt (int n), ''Number of wavelengths'') ?h3"
  have len: "py_len (wave img) = Inr n" using w by (simp add: py_len_def)
  have h3: "(if ndim (data img) = 3
               then header_setitem ?h2 ''VZ'' (vz img) ''Vz pixel size, km/s''
               else Inr ?h2) = Inr ?h3"
    using z by (simp add: header_setitem_number)
  have start: "toHDU img =
     bind_err (if n > 1
               then bind_err (zip_lines img) (toHDU_lines ?h4 1)
               else
                 bind_err (py_index0 (wave img)) (\<lambda>w0.
                 bind_err (header_setitem ?h4 ''WAVE1'' w0 ''Central wavelength'') (\<lambda>h5.
                 bind_err (py_index0 (gamma img)) (\<lambda>g0.
                   header_setitem h5 ''GAMMA1'' g0 ''Systemic velocity, km/s'')))) (\<lambda>h6.
       Inr \<lparr> hdu_data = PyArray (data img), hdu_header = h6 \<rparr>)"
    unfolding toHDU_def by (simp only: header_setitem_simps header_setitem_number [OF x]
        bind_err_simps h3 len)
  have k4: "map_of ?h4 ''VXY'' = Some (vxy img, ''Vx-Vy pixel size, km/s'')"
    "ndim (data img) = 3 \<longrightarrow> map_of ?h4 ''VZ'' = Some (vz img, ''Vz pixel size, km/s'')"
    "map_of ?h4 ''NWAVE'' = Some (PyInt (int n), ''Number of wavelengths'')"
    by (simp_all add: AList.update_conv')
  show ?thesis
  proof (cases "n > 1")
    case False
    with n have n1: "n = 1" by simp
    let ?H = "AList.update ''GAMMA1'' (PyFloat (elems (gamma img) ! 0), ''Systemic velocity, km/s'')
               (AList.update ''WAVE1'' (PyFloat (elems (wave img) ! 0), ''Central wavelength'') ?h4)"
    have "toHDU img = Inr \<lparr> hdu_data = PyArray (data img), hdu_header = ?H \<rparr>"
      using n1 py_index0_1d [OF w n] py_index0_1d [OF g n] by (simp add: start)
    moreover have "map_of ?H ''VXY'' = Some (vxy img, ''Vx-Vy pixel size, km/s'')"
      "ndim (data img) = 3 \<longrightarrow> map_of ?H ''VZ'' = Some (vz img, ''Vz pixel size, km/s'')"
      "map_of ?H ''NWAVE'' = Some (PyInt (int n), ''Number of wavelengths'')"
      "map_of ?H (''WAVE'' @ str_nat (Suc 0)) = Some (PyFloat (elems (wave img) ! 0), ''Central wavelength'')"
      "map_of ?H (''GAMMA'' @ str_nat (Suc 0))
          = Some (PyFloat (elems (gamma img) ! 0), ''Systemic velocity, km/s'')"
      by (simp_all add: AList.update_conv')
    ultimately show ?thesis using n1 by (intro exI [of _ ?H]) simp
  next
    case True
    with s obtain a where a: "scale img = Some a" "shape a = [n]" "length (elems a) = n" by blast
    let ?ws = "elems (wave img)" and ?gs = "elems (gamma img)" and ?ss = "elems a"
    have zl: "zip_lines img = Inr (zip (map PyFloat ?ws) (zip (map PyFloat ?gs) (map PyFloat ?ss)))"
      by (simp add: zip_lines_def a py_iter_1d [OF w] py_iter_1d [OF g] py_iter_1d [OF a(2,3)])
    from toHDU_lines_ok [of ?gs ?ws ?ss ?h4 "Suc 0"] w g a obtain H where
      run: "toHDU_lines ?h4 (Suc 0) (zip (map PyFloat ?ws) (zip (map PyFloat ?gs) (map PyFloat ?ss)))
             = Inr H"
      and set: "\<And>i. i < n \<Longrightarrow>
            map_of H (''WAVE'' @ str_nat (Suc i)) = Some (PyFloat (?ws ! i), ''Central wavelength'')
          \<and> map_of H (''GAMMA'' @ str_nat (Suc i)) = Some (PyFloat (?gs ! i), ''Systemic velocity, km/s'')
          \<and> map_of H (''SCALE'' @ str_nat (Suc i)) = Some (PyFloat (?ss ! i), ''Scaling factor'')"
      and keep: "\<And>key. (\<forall>i<n. key \<noteq> ''WAVE'' @ str_nat (Suc i)
                    \<and> key \<noteq> ''GAMMA'' @ str_nat (Suc i) \<and> key \<noteq> ''SCALE'' @ str_nat (Suc i))
            \<Longrightarrow> map_of H key = map_of ?h4 key"
      by auto
    have "toHDU img = Inr \<lparr> hdu_data = PyArray (data img), hdu_header = H \<rparr>"
      using True run by (simp add: start zl)
    moreover have "map_of H ''VXY'' = map_of ?h4 ''VXY''" "map_of H ''VZ'' = map_of ?h4 ''VZ''"
      "map_of H ''NWAVE'' = map_of ?h4 ''NWAVE''"
      by (rule keep, simp)+
    ultimately show ?thesis using k4 set a(1) by (intro exI [of _ H]) simp
  qed
qed

lemma ndarray_eqI: "shape a = sh \<Longrightarrow> a = NdArray sh (elems a)"
  by (cases a) simp

lemma Image_init_rebuild:
  assumes d: "ndim (data img) = 2 \<or> ndim (data img) = 3"
    and w: "shape (wave img) = [n]" and g: "shape (gamma img) = [n]"
    and s0: "\<not> n > 1 \<longrightarrow> scale img = None"
    and s1: "n > 1 \<longrightarrow> (\<exists>a. scale img = Some a \<and> shape a = [n])"
    and z: "ndim (data img) = 3 \<longrightarrow> vz img \<noteq> PyNone"
  shows "Image_init (PyArray (data img)) (vxy img) (PyArray (NdArray [n] (elems (wave img))))
           (PyArray (NdArray [n] (elems (gamma img))))
           (if n > 1 then PyArray (NdArray [n] (elems (the (scale img)))) else PyNone)
           (vz img) = Inr img"
proof -
  let ?sarg = "if n > 1 then PyArray (NdArray [n] (elems (the (scale img)))) else PyNone"
  have we: "NdArray [n] (elems (wave img)) = wave img"
    and ge: "NdArray [n] (elems (gamma img)) = gamma img"
    using ndarray_eqI [OF w] ndarray_eqI [OF g] by simp_all
  have lw: "py_len (wave img) = Inr n" and lg: "py_len (gamma img) = Inr n"
    and nw: "ndim (wave img) = 1" and ng: "ndim (gamma img) = 1"
    using w g by (simp_all add: py_len_def ndim_def)
  have aw: "as_line_array (PyArray (wave img)) = Inr (wave img)"
    and ag: "as_line_array (PyArray (gamma img)) = Inr (gamma img)"
    by (simp_all add: as_line_array_def nw ng)
  have sc: "scale_attr ?sarg (wave img) = Inr (scale img)"
  proof (cases "n > 1")
    case True
    with s1 obtain a where a: "scale img = Some a" "shape a = [n]" by blast
    from ndarray_eqI [OF a(2)] have "NdArray [n] (elems a) = a" by simp
    with True a lw show ?thesis by (simp add: scale_attr_def ndim_def py_len_def)
  next
    case False
    with s0 lw show ?thesis by (simp add: scale_attr_def)
  qed
  have "Image_init (PyArray (data img)) (vxy img) (PyArray (wave img)) (PyArray (gamma img))
          ?sarg (vz img)
      = Inr \<lparr> data = data img, vxy = vxy img, vz = vz img,
               wave = wave img, gamma = gamma img, scale = scale img \<rparr>"
    unfolding Image_init_def using d z
    by (simp only: aw ag lw lg sc pyval.case sum.case) auto
  then show ?thesis unfolding we ge by simp
qed

lemma fromHDU_of_header:
  assumes d: "ndim (data img) = 2 \<or> ndim (data img) = 3"
    and w: "shape (wave img) = [n]" "length (elems (wave img)) = n"
    and g: "shape (gamma img) = [n]" "length (elems (gamma img)) = n"
    and n: "n \<ge> 1"
    and s0: "\<not> n > 1 \<longrightarrow> scale img = None"
    and s1: "n > 1 \<longrightarrow> (\<exists>a. scale img = Some a \<and> shape a = [n] \<and> length (elems a) = n)"
    and z: "ndim (data img) = 3 \<longrightarrow> vz img \<noteq> PyNone" "ndim (data img) \<noteq> 3 \<longrightarrow> vz img = PyNone"
    and F1: "\<exists>c. map_of H ''VXY'' = Some (vxy img, c)"
    and F2: "ndim (data img) = 3 \<longrightarrow> (\<exists>c. map_of H ''VZ'' = Some (vz img, c))"
    and F3: "\<exists>c. map_of H ''NWAVE'' = Some (PyInt (int n), c)"
    and F4: "\<forall>i<n. (\<exists>c. map_of H (''WAVE'' @ str_nat (Suc i)) = Some (PyFloat (elems (wave img) ! i), c))
             \<and> (\<exists>c. map_of H (''GAMMA'' @ str_nat (Suc i)) = Some (PyFloat (elems (gamma img) ! i), c))"
    and F5: "n > 1 \<longrightarrow> (\<forall>i<n. \<exists>c. map_of H (''SCALE'' @ str_nat (Suc i))
                         = Some (PyFloat (elems (the (scale img)) ! i), c))"
  shows "fromHDU \<lparr> hdu_data = PyArray (data img), hdu_header = H \<rparr> = Inr img"
proof -
  let ?ws = "elems (wave img)" and ?gs = "elems (gamma img)" and ?ss = "elems (the (scale img))"
  from n F4 have "(\<exists>c. map_of H (''WAVE'' @ str_nat (Suc 0)) = Some (PyFloat (?ws ! 0), c))
      \<and> (\<exists>c. map_of H (''GAMMA'' @ str_nat (Suc 0)) = Some (PyFloat (?gs ! 0), c))"
    by (metis Suc_le_eq One_nat_def)
  then have c1: "header_contains H ''WAVE1''" "header_contains H ''GAMMA1''"
    by (auto simp: header_contains_map_of)
  from F1 F3 have c2: "header_contains H ''VXY''" "header_contains H ''NWAVE''"
    by (auto simp: header_contains_map_of)
  from F1 have vx: "header_getitem H ''VXY'' = Inr (vxy img)"
    by (auto simp: header_getitem_def)
  from F2 z have vzz: "(if ndim (data img) = 3 then header_getitem H ''VZ'' else Inr PyNone)
      = Inr (vz img)"
    by (auto simp: header_getitem_def)
  from F3 have nw: "header_getitem H ''NWAVE'' = Inr (PyInt (int n))"
    by (auto simp: header_getitem_def)
  have ne: "np_empty (PyInt (int n)) = Inr (replicate n 0)"
    by (simp add: np_empty_def)
  have reads: "\<forall>i \<in> set [0..<n]. i < n
      \<and> read_float H (''WAVE'' @ str_nat (Suc i)) = Inr (?ws ! i)
      \<and> read_float H (''GAMMA'' @ str_nat (Suc i)) = Inr (?gs ! i)
      \<and> (n > 1 \<longrightarrow> read_float H (''SCALE'' @ str_nat (Suc i)) = Inr (?ss ! i))"
    using F4 F5 by (auto simp: read_float_def header_getitem_def)
  have ls: "n > 1 \<longrightarrow> length ?ss = n" using s1 by auto
  have loop: "fromHDU_loop H n [0..<n] (replicate n 0) (replicate n 0)
        (if n > 1 then Some (replicate n 0) else None)
      = Inr (?ws, ?gs, if n > 1 then Some ?ss else None)"
  proof -
    have "fromHDU_loop H n [0..<n] (replicate n 0) (replicate n 0)
        (if n > 1 then Some (replicate n 0) else None)
      = Inr (fold (\<lambda>i l. l[i := ?ws ! i]) [0..<n] (replicate n 0),
             fold (\<lambda>i l. l[i := ?gs ! i]) [0..<n] (replicate n 0),
             if n > 1 then map_option (fold (\<lambda>i l. l[i := ?ss ! i]) [0..<n])
                  (if n > 1 then Some (replicate n 0) else None)
             else (if n > 1 then Some (replicate n 0) else None))"
      by (rule fromHDU_loop_ok [OF reads]) simp_all
    moreover have "fold (\<lambda>i l. l[i := ?ws ! i]) [0..<n] (replicate n 0) = ?ws"
      using fold_update_upt [of "replicate n 0" ?ws] w(2) by simp
    moreover have "fold (\<lambda>i l. l[i := ?gs ! i]) [0..<n] (replicate n 0) = ?gs"
      using fold_update_upt [of "replicate n 0" ?gs] g(2) by simp
    moreover have "n > 1 \<longrightarrow> fold (\<lambda>i l. l[i := ?ss ! i]) [0..<n] (replicate n 0) = ?ss"
      using fold_update_upt [of "replicate n 0" ?ss] ls by auto
    ultimately show ?thesis by simp
  qed
  have s1': "n > 1 \<longrightarrow> (\<exists>a. scale img = Some a \<and> shape a = [n])" using s1 by blast
  note fin = Image_init_rebuild [OF d w(1) g(1) s0 s1' z(1)]
  have "(case (if n > 1 then Some ?ss else None) of
            None \<Rightarrow> PyNone | Some s \<Rightarrow> PyArray (NdArray [n] s))
        = (if n > 1 then PyArray (NdArray [n] ?ss) else PyNone)"
    by simp
  with fin have fin': "Image_init (PyArray (data img)) (vxy img) (PyArray (NdArray [n] ?ws))
           (PyArray (NdArray [n] ?gs))
           (case (if n > 1 then Some ?ss else None) of
              None \<Rightarrow> PyNone | Some s \<Rightarrow> PyArray (NdArray [n] s)) (vz img) = Inr img"
    by (simp only:)
  show ?thesis
    unfolding fromHDU_def Let_def
    by (simp only: hdu.simps c1 c2 vx vzz nw ne loop fin' bind_err_simps pyval.case
          length_replicate not_True_eq_False simp_thms if_False prod.case)
qed

lemma agree_update:
  assumes "length l = length l'" and "\<forall>i<length l. i \<notin> set (n # ns) \<longrightarrow> l ! i = l' ! i"
  shows "length (l[n := v]) = length (l'[n := v])
       \<and> (\<forall>i<length (l[n := v]). i \<notin> set ns \<longrightarrow> l[n := v] ! i = l'[n := v] ! i)"
proof (intro conjI allI impI)
  show "length (l[n := v]) = length (l'[n := v])" using assms(1) by simp
next
  fix i assume "i < length (l[n := v])" and "i \<notin> set ns"
  with assms show "l[n := v] ! i = l'[n := v] ! i"
    by (cases "i = n") simp_all
qed

lemma fromHDU_loop_agree:
  assumes "length wv = length wv'" and "\<forall>i<length wv. i \<notin> set ns \<longrightarrow> wv ! i = wv' ! i"
    and "length gm = length gm'" and "\<forall>i<length gm. i \<notin> set ns \<longrightarrow> gm ! i = gm' ! i"
    and "sc = sc' \<or>
         (nwave > 1 \<and> (\<exists>xs xs'. sc = Some xs \<and> sc' = Some xs' \<and> length xs = length xs'
             \<and> (\<forall>i<length xs. i \<notin> set ns \<longrightarrow> xs ! i = xs' ! i)))"
  shows "fromHDU_loop head nwave ns wv gm sc = fromHDU_loop head nwave ns wv' gm' sc'"
  using assms
proof (induction ns arbitrary: wv wv' gm gm' sc sc')
  case Nil
  then have "wv = wv'" "gm = gm'" "sc = sc'"
    by (auto intro: nth_equalityI)
  then show ?case by simp
next
  case (Cons n ns)
  note aw = agree_update [OF Cons.prems(1,2)]
  note ag = agree_update [OF Cons.prems(3,4)]
  show ?case
  proof (cases "n < length wv \<and> n < length gm")
    case False
    with Cons.prems(1,3) show ?thesis
      by (auto simp: set_item_def split: sum.splits)
  next
    case True
    show ?thesis
    proof (cases "sc = sc'")
      case same: True
      have 1: "fromHDU_loop head nwave ns (wv[n := a]) (gm[n := b]) t
          = fromHDU_loop head nwave ns (wv'[n := a]) (gm'[n := b]) t" for a b t
        using aw [of a] ag [of b] by (intro Cons.IH) auto
      from True Cons.prems(1,3) same 1 show ?thesis
        by (simp add: set_item_def split: sum.splits option.splits)
    next
      case False
      with Cons.prems(5) obtain xs xs' where nw: "nwave > 1" and xs: "sc = Some xs" "sc' = Some xs'"
        and ax: "length xs = length xs'" "\<forall>i<length xs. i \<notin> set (n # ns) \<longrightarrow> xs ! i = xs' ! i"
        by blast
      note as = agree_update [OF ax]
      have 1: "fromHDU_loop head nwave ns (wv[n := a]) (gm[n := b]) (Some (xs[n := c]))
          = fromHDU_loop head nwave ns (wv'[n := a]) (gm'[n := b]) (Some (xs'[n := c]))" for a b c
        using aw [of a] ag [of b] as [of c] nw by (intro Cons.IH) auto
      from True Cons.prems(1,3) nw xs ax(1) 1 show ?thesis
        by (simp add: set_item_def split: sum.splits)
    qed
  qed
qed

lemma fromHDU_loop_initial_irrelevant:
  assumes "length wv = n" "length wv' = n" "length gm = n" "length gm' = n"
    "length xs = n" "length xs' = n"
  shows "fromHDU_loop head n [0..<n] wv gm (if n > 1 then Some xs else None)
       = fromHDU_loop head n [0..<n] wv' gm' (if n > 1 then Some xs' else None)"
  using assms by (intro fromHDU_loop_agree) auto

lemma str_nat_2 [simp]: "str_nat 2 = ''2''" "str_nat (Suc (Suc 0)) = ''2''"
  by (simp_all add: str_nat.simps digit_char_def)

text \<open>What a successful \<open>fromHDU\<close> tells about the HDU.\<close>

lemma fromHDU_Inr:
  assumes "fromHDU h = Inr img"
  obtains d vxy_v vz_v nw wv gm sc where
      "hdu_data h = PyArray d"
      "header_contains (hdu_header h) ''VXY''" "header_contains (hdu_header h) ''NWAVE''"
      "header_contains (hdu_header h) ''WAVE1''" "header_contains (hdu_header h) ''GAMMA1''"
      "header_getitem (hdu_header h) ''VXY'' = Inr vxy_v"
      "ndim d = 3 \<longrightarrow> header_getitem (hdu_header h) ''VZ'' = Inr vz_v"
      "ndim d \<noteq> 3 \<longrightarrow> vz_v = PyNone"
      "Image_init (PyArray d) vxy_v (PyArray (NdArray [nw] wv)) (PyArray (NdArray [nw] gm))
         (case sc of None \<Rightarrow> PyNone | Some s \<Rightarrow> PyArray (NdArray [nw] s)) vz_v = Inr img"
proof -
  let ?head = "hdu_header h"
  from assms have c: "header_contains ?head ''VXY''" "header_contains ?head ''NWAVE''"
     "header_contains ?head ''WAVE1''" "header_contains ?head ''GAMMA1''"
    by (auto simp: fromHDU_def Let_def split: if_splits)
  with assms have "bind_err (header_getitem ?head ''VXY'') (\<lambda>vxy_v.
        bind_err (case hdu_data h of PyArray d \<Rightarrow> Inr (ndim d) | _ \<Rightarrow> Inl AttributeError) (\<lambda>nd.
        bind_err (if nd = 3 then header_getitem ?head ''VZ'' else Inr PyNone) (\<lambda>vz_v.
        bind_err (header_getitem ?head ''NWAVE'') (\<lambda>nwave_v.
        bind_err (np_empty nwave_v) (\<lambda>wave0.
        bind_err (np_empty nwave_v) (\<lambda>gamma0.
        bind_err (fromHDU_loop ?head (length wave0) [0..<length wave0] wave0 gamma0
            (if length wave0 > 1 then Some (replicate (length wave0) 0) else None)) (\<lambda>(wv, gm, sc).
          Image_init (hdu_data h) vxy_v (PyArray (NdArray [length wave0] wv))
            (PyArray (NdArray [length wave0] gm))
            (case sc of None \<Rightarrow> PyNone | Some s \<Rightarrow> PyArray (NdArray [length wave0] s)) vz_v)))))))
       = Inr img"
    by (simp add: fromHDU_def Let_def)
  then obtain vxy_v nd vz_v and wave0 :: "real list" and r where
    v: "header_getitem ?head ''VXY'' = Inr vxy_v"
    and nd: "(case hdu_data h of PyArray d \<Rightarrow> Inr (ndim d) | _ \<Rightarrow> Inl AttributeError) = Inr nd"
    and z: "(if nd = 3 then header_getitem ?head ''VZ'' else Inr PyNone) = Inr vz_v"
    and i: "(case r of (wv, gm, sc) \<Rightarrow>
          Image_init (hdu_data h) vxy_v (PyArray (NdArray [length wave0] wv))
            (PyArray (NdArray [length wave0] gm))
            (case sc of None \<Rightarrow> PyNone | Some s \<Rightarrow> PyArray (NdArray [length wave0] s)) vz_v)
          = Inr img"
    unfolding bind_err_Inr by blast
  obtain wv gm sc where r: "r = (wv, gm, sc)" by (cases r)
  from nd obtain d where d: "hdu_data h = PyArray d" "nd = ndim d"
    by (cases "hdu_data h") auto
  from z d have z': "ndim d = 3 \<longrightarrow> header_getitem ?head ''VZ'' = Inr vz_v"
    "ndim d \<noteq> 3 \<longrightarrow> vz_v = PyNone"
    by (auto split: if_splits)
  from i r d have "Image_init (PyArray d) vxy_v (PyArray (NdArray [length wave0] wv))
            (PyArray (NdArray [length wave0] gm))
            (case sc of None \<Rightarrow> PyNone | Some s \<Rightarrow> PyArray (NdArray [length wave0] s)) vz_v
          = Inr img"
    by simp
  with d(1) c v z' show ?thesis by (rule that)
qed

section \<open>Claims about \<open>toHDU\<close> and \<open>fromHDU\<close>\<close>

text \<open>
  Claim C1, as the code has it. For every successfully constructed Image that satisfies
  the invariant of the data model (at least one line; scale factors present iff there is
  more than one line; \<open>vz\<close> present iff the data are 3D), whose arrays are genuine numpy
  arrays and whose \<open>vxy\<close> and, for 3D data, \<open>vz\<close> are numbers, \<open>toHDU\<close> succeeds and
  \<open>fromHDU\<close> of its result is the original Image: \<open>data\<close>, \<open>vxy\<close>, \<open>wave\<close>, \<open>gamma\<close>,
  \<open>scale\<close> and \<open>vz\<close> all come back unchanged.
\<close>

theorem toHDU_fromHDU_roundtrip:
  assumes c: "Image_init d x w g s z = Inr img"
    and inv: "image_invariant img" and wf: "wf_image img"
    and nx: "is_number (vxy img)" and nz: "ndim (data img) = 3 \<longrightarrow> is_number (vz img)"
  shows "\<exists>h. toHDU img = Inr h \<and> fromHDU h = Inr img"
proof -
  from Image_init_Inr [OF c] obtain n where
    d: "ndim (data img) = 2 \<or> ndim (data img) = 3"
    and aw: "as_line_array w = Inr (wave img)" and ag: "as_line_array g = Inr (gamma img)"
    and lw: "py_len (wave img) = Inr n" and lg: "py_len (gamma img) = Inr n"
    and sa: "scale_attr s (wave img) = Inr (scale img)"
    by auto
  have sw: "shape (wave img) = [n]" and sg: "shape (gamma img) = [n]"
    using as_line_array_count [OF aw lw] as_line_array_count [OF ag lg] by simp_all
  from wf sw sg have ew: "length (elems (wave img)) = n" and eg: "length (elems (gamma img)) = n"
    by (simp_all add: wf_image_def wf_ndarray_def)
  from inv lw have n: "n \<ge> 1" and sc: "scale img \<noteq> None \<longleftrightarrow> n > 1"
    and zz: "vz img \<noteq> PyNone \<longleftrightarrow> ndim (data img) = 3"
    by (simp_all add: image_invariant_def)
  have s0: "\<not> n > 1 \<longrightarrow> scale img = None" using sc by blast
  have s1: "n > 1 \<longrightarrow> (\<exists>a. scale img = Some a \<and> shape a = [n] \<and> length (elems a) = n)"
  proof
    assume "n > 1"
    with sc obtain a where a: "scale img = Some a" by auto
    with scale_attr_Inr [OF sa lw] have "shape a = [n]" by simp
    moreover from wf a this have "length (elems a) = n"
      by (simp add: wf_image_def wf_ndarray_def)
    ultimately show "\<exists>a. scale img = Some a \<and> shape a = [n] \<and> length (elems a) = n"
      using a by simp
  qed
  from toHDU_header [OF sw ew sg eg n s1 nx nz] obtain H where
    t: "toHDU img = Inr \<lparr> hdu_data = PyArray (data img), hdu_header = H \<rparr>"
    and F1: "\<exists>c. map_of H ''VXY'' = Some (vxy img, c)"
    and F2: "ndim (data img) = 3 \<longrightarrow> (\<exists>c. map_of H ''VZ'' = Some (vz img, c))"
    and F3: "\<exists>c. map_of H ''NWAVE'' = Some (PyInt (int n), c)"
    and F4: "\<forall>i<n. (\<exists>c. map_of H (''WAVE'' @ str_nat (Suc i)) = Some (PyFloat (elems (wave img) ! i), c))
             \<and> (\<exists>c. map_of H (''GAMMA'' @ str_nat (Suc i)) = Some (PyFloat (elems (gamma img) ! i), c))"
    and F5: "n > 1 \<longrightarrow> (\<forall>i<n. \<exists>c. map_of H (''SCALE'' @ str_nat (Suc i))
                         = Some (PyFloat (elems (the (scale img)) ! i), c))"
    by blast
  have z1: "ndim (data img) = 3 \<longrightarrow> vz img \<noteq> PyNone"
    and z2: "ndim (data img) \<noteq> 3 \<longrightarrow> vz img = PyNone"
    using zz by auto
  from fromHDU_of_header [OF d sw ew sg eg n s0 s1 z1 z2 F1 F2 F3 F4 F5] t
  show ?thesis by simp
qed

text \<open>
  Witness for C1: a 3D image with two lines, two scale factors and a layer spacing of
  50 km/s, with the header \<open>toHDU\<close> writes for it.
\<close>

theorem toHDU_fromHDU_roundtrip_witness:
  "Image_init (PyArray (NdArray [2, 2, 2] [1, 2, 3, 4, 5, 6, 7, 8])) (PyFloat 40)
      (PyArray (NdArray [2] [486.2, 434.0])) (PyArray (NdArray [2] [100, 100]))
      (PyArray (NdArray [2] [1, 0.5])) (PyFloat 50)
    = Inr \<lparr> data = NdArray [2, 2, 2] [1, 2, 3, 4, 5, 6, 7, 8], vxy = PyFloat 40, vz = PyFloat 50,
            wave = NdArray [2] [486.2, 434.0], gamma = NdArray [2] [100, 100],
            scale = Some (NdArray [2] [1, 0.5]) \<rparr>
   \<and> toHDU \<lparr> data = NdArray [2, 2, 2] [1, 2, 3, 4, 5, 6, 7, 8], vxy = PyFloat 40, vz = PyFloat 50,
            wave = NdArray [2] [486.2, 434.0], gamma = NdArray [2] [100, 100],
            scale = Some (NdArray [2] [1, 0.5]) \<rparr>
    = Inr \<lparr> hdu_data = PyArray (NdArray [2, 2, 2] [1, 2, 3, 4, 5, 6, 7, 8]),
            hdu_header = [(''TYPE'', PyStr ''doppler.Image'' None, []),
                          (''VXY'', PyFloat 40, ''Vx-Vy pixel size, km/s''),
                          (''VZ'', PyFloat 50, ''Vz pixel size, km/s''),
                          (''NWAVE'', PyInt 2, ''Number of wavelengths''),
                          (''WAVE1'', PyFloat 486.2, ''Central wavelength''),
                          (''GAMMA1'', PyFloat 100, ''Systemic velocity, km/s''),
                          (''SCALE1'', PyFloat 1, ''Scaling factor''),
                          (''WAVE2'', PyFloat 434.0, ''Central wavelength''),
                          (''GAMMA2'', PyFloat 100, ''Systemic velocity, km/s''),
                          (''SCALE2'', PyFloat 0.5, ''Scaling factor'')] \<rparr>
   \<and> fromHDU \<lparr> hdu_data = PyArray (NdArray [2, 2, 2] [1, 2, 3, 4, 5, 6, 7, 8]),
            hdu_header = [(''TYPE'', PyStr ''doppler.Image'' None, []),
                          (''VXY'', PyFloat 40, ''Vx-Vy pixel size, km/s''),
                          (''VZ'', PyFloat 50, ''Vz pixel size, km/s''),
                          (''NWAVE'', PyInt 2, ''Number of wavelengths''),
                          (''WAVE1'', PyFloat 486.2, ''Central wavelength''),
                          (''GAMMA1'', PyFloat 100, ''Systemic velocity, km/s''),
                          (''SCALE1'', PyFloat 1, ''Scaling factor''),
                          (''WAVE2'', PyFloat 434.0, ''Central wavelength''),
                          (''GAMMA2'', PyFloat 100, ''Systemic velocity, km/s''),
                          (''SCALE2'', PyFloat 0.5, ''Scaling factor'')] \<rparr>
    = Inr \<lparr> data = NdArray [2, 2, 2] [1, 2, 3, 4, 5, 6, 7, 8], vxy = PyFloat 40, vz = PyFloat 50,
            wave = NdArray [2] [486.2, 434.0], gamma = NdArray [2] [100, 100],
            scale = Some (NdArray [2] [1, 0.5]) \<rparr>"
proof -
  let ?I = "\<lparr> data = NdArray [2, 2, 2] [1, 2, 3, 4, 5, 6, 7, 8], vxy = PyFloat 40, vz = PyFloat 50,
            wave = NdArray [2] [486.2, 434.0], gamma = NdArray [2] [100, 100],
            scale = Some (NdArray [2] [1, 0.5]) \<rparr>"
  have c: "Image_init (PyArray (NdArray [2, 2, 2] [1, 2, 3, 4, 5, 6, 7, 8])) (PyFloat 40)
      (PyArray (NdArray [2] [486.2, 434.0])) (PyArray (NdArray [2] [100, 100]))
      (PyArray (NdArray [2] [1, 0.5])) (PyFloat 50) = Inr ?I"
    by (simp add: Image_init_def as_line_array_def scale_attr_def ndim_def py_len_def)
  have inv: "image_invariant ?I"
    by (simp add: image_invariant_def py_len_def ndim_def)
  have wf: "wf_image ?I"
    by (simp add: wf_image_def wf_ndarray_def)
  have nx: "is_number (vxy ?I)" and nz: "ndim (data ?I) = 3 \<longrightarrow> is_number (vz ?I)"
    by (simp_all add: is_number_def)
  have t: "toHDU ?I
    = Inr \<lparr> hdu_data = PyArray (NdArray [2, 2, 2] [1, 2, 3, 4, 5, 6, 7, 8]),
            hdu_header = [(''TYPE'', PyStr ''doppler.Image'' None, []),
                          (''VXY'', PyFloat 40, ''Vx-Vy pixel size, km/s''),
                          (''VZ'', PyFloat 50, ''Vz pixel size, km/s''),
                          (''NWAVE'', PyInt 2, ''Number of wavelengths''),
                          (''WAVE1'', PyFloat 486.2, ''Central wavelength''),
                          (''GAMMA1'', PyFloat 100, ''Systemic velocity, km/s''),
                          (''SCALE1'', PyFloat 1, ''Scaling factor''),
                          (''WAVE2'', PyFloat 434.0, ''Central wavelength''),
                          (''GAMMA2'', PyFloat 100, ''Systemic velocity, km/s''),
                          (''SCALE2'', PyFloat 0.5, ''Scaling factor'')] \<rparr>"
    by (simp add: toHDU_def zip_lines_def py_iter_def ndim_def py_len_def)
  from toHDU_fromHDU_roundtrip [OF c inv wf nx nz] c t show ?thesis
    by auto
qed

text \<open>
  Counterexample to C1 as stated: the Image with one line and one scale factor, which
  the constructor accepts, loses its \<open>scale\<close> attribute on the way through
  \<open>toHDU\<close> and \<open>fromHDU\<close>, because \<open>toHDU\<close> writes \<open>SCALE\<close> cards only for more than one
  wavelength.
\<close>

theorem roundtrip_loses_scale_counterexample:
  "Image_init (PyArray (NdArray [2, 2] [1, 2, 3, 4])) (PyFloat 40) (PyFloat 486.2) (PyFloat 100)
      (PyArray (NdArray [1] [1])) PyNone
    = Inr \<lparr> data = NdArray [2, 2] [1, 2, 3, 4], vxy = PyFloat 40, vz = PyNone,
            wave = NdArray [1] [486.2], gamma = NdArray [1] [100],
            scale = Some (NdArray [1] [1]) \<rparr>
   \<and> toHDU \<lparr> data = NdArray [2, 2] [1, 2, 3, 4], vxy = PyFloat 40, vz = PyNone,
            wave = NdArray [1] [486.2], gamma = NdArray [1] [100],
            scale = Some (NdArray [1] [1]) \<rparr>
    = Inr \<lparr> hdu_data = PyArray (NdArray [2, 2] [1, 2, 3, 4]),
            hdu_header = [(''TYPE'', PyStr ''doppler.Image'' None, []),
                          (''VXY'', PyFloat 40, ''Vx-Vy pixel size, km/s''),
                          (''NWAVE'', PyInt 1, ''Number of wavelengths''),
                          (''WAVE1'', PyFloat 486.2, ''Central wavelength''),
                          (''GAMMA1'', PyFloat 100, ''Systemic velocity, km/s'')] \<rparr>
   \<and> fromHDU \<lparr> hdu_data = PyArray (NdArray [2, 2] [1, 2, 3, 4]),
            hdu_header = [(''TYPE'', PyStr ''doppler.Image'' None, []),
                          (''VXY'', PyFloat 40, ''Vx-Vy pixel size, km/s''),
                          (''NWAVE'', PyInt 1, ''Number of wavelengths''),
                          (''WAVE1'', PyFloat 486.2, ''Central wavelength''),
                          (''GAMMA1'', PyFloat 100, ''Systemic velocity, km/s'')] \<rparr>
    = Inr \<lparr> data = NdArray [2, 2] [1, 2, 3, 4], vxy = PyFloat 40, vz = PyNone,
            wave = NdArray [1] [486.2], gamma = NdArray [1] [100], scale = None \<rparr>"
  by (simp add: Image_init_def as_line_array_def scale_attr_def ndim_def py_len_def
      toHDU_def py_index0_def fromHDU_def header_contains_def header_getitem_def
      np_empty_def read_float_def set_item_def Let_def)

text \<open>
  Claim C4, as the code has it. For every successfully constructed Image, \<open>vz\<close> is the
  argument that was passed, and it is defined whenever the data are 3D; a 2D Image
  keeps a \<open>vz\<close> that was passed to the constructor. An Image built by \<open>fromHDU\<close> has
  \<open>vz\<close> defined if and only if its data are 3D.
\<close>

theorem vz_defined_when_3D:
  "(Image_init d x w g s z = Inr img \<longrightarrow>
      vz img = z \<and> (ndim (data img) = 2 \<or> ndim (data img) = 3)
      \<and> (ndim (data img) = 3 \<longrightarrow> vz img \<noteq> PyNone))
   \<and> (fromHDU h = Inr img' \<longrightarrow> (vz img' \<noteq> PyNone \<longleftrightarrow> ndim (data img') = 3))"
proof (rule conjI; rule impI)
  assume "Image_init d x w g s z = Inr img"
  from Image_init_Inr [OF this]
  show "vz img = z \<and> (ndim (data img) = 2 \<or> ndim (data img) = 3)
      \<and> (ndim (data img) = 3 \<longrightarrow> vz img \<noteq> PyNone)"
    by auto
next
  assume "fromHDU h = Inr img'"
  then obtain d vxy_v vz_v w g s where
    z: "ndim d \<noteq> 3 \<longrightarrow> vz_v = PyNone"
    and i: "Image_init (PyArray d) vxy_v w g s vz_v = Inr img'"
    by (rule fromHDU_Inr)
  from Image_init_Inr [OF i] z
  show "vz img' \<noteq> PyNone \<longleftrightarrow> ndim (data img') = 3"
    by auto
qed

text \<open>
  Witness for C4: a 3D image constructed with a layer spacing of 50 km/s, and a 2D
  image read back from a header without a \<open>VZ\<close> card.
\<close>

theorem vz_defined_when_3D_witness:
  "Image_init (PyArray (NdArray [2, 2, 2] [1, 2, 3, 4, 5, 6, 7, 8])) (PyFloat 40)
      (PyFloat 468.6) (PyFloat 150) PyNone (PyFloat 50)
    = Inr \<lparr> data = NdArray [2, 2, 2] [1, 2, 3, 4, 5, 6, 7, 8], vxy = PyFloat 40, vz = PyFloat 50,
            wave = NdArray [1] [468.6], gamma = NdArray [1] [150], scale = None \<rparr>
   \<and> ndim (NdArray [2, 2, 2] [1, 2, 3, 4, 5, 6, 7, 8]) = 3
   \<and> fromHDU \<lparr> hdu_data = PyArray (NdArray [2, 2] [1, 2, 3, 4]),
            hdu_header = [(''VXY'', PyFloat 40, []), (''NWAVE'', PyInt 1, []),
                          (''WAVE1'', PyFloat 468.6, []), (''GAMMA1'', PyFloat 150, [])] \<rparr>
    = Inr \<lparr> data = NdArray [2, 2] [1, 2, 3, 4], vxy = PyFloat 40, vz = PyNone,
            wave = NdArray [1] [468.6], gamma = NdArray [1] [150], scale = None \<rparr>
   \<and> ndim (NdArray [2, 2] [1, 2, 3, 4]) \<noteq> 3"
proof -
  have a: "Image_init (PyArray (NdArray [2, 2, 2] [1, 2, 3, 4, 5, 6, 7, 8])) (PyFloat 40)
      (PyFloat 468.6) (PyFloat 150) PyNone (PyFloat 50)
    = Inr \<lparr> data = NdArray [2, 2, 2] [1, 2, 3, 4, 5, 6, 7, 8], vxy = PyFloat 40, vz = PyFloat 50,
            wave = NdArray [1] [468.6], gamma = NdArray [1] [150], scale = None \<rparr>"
    by (simp add: Image_init_def as_line_array_def scale_attr_def ndim_def py_len_def)
  have b: "fromHDU \<lparr> hdu_data = PyArray (NdArray [2, 2] [1, 2, 3, 4]),
            hdu_header = [(''VXY'', PyFloat 40, []), (''NWAVE'', PyInt 1, []),
                          (''WAVE1'', PyFloat 468.6, []), (''GAMMA1'', PyFloat 150, [])] \<rparr>
    = Inr \<lparr> data = NdArray [2, 2] [1, 2, 3, 4], vxy = PyFloat 40, vz = PyNone,
            wave = NdArray [1] [468.6], gamma = NdArray [1] [150], scale = None \<rparr>"
    by (simp add: Image_init_def as_line_array_def scale_attr_def ndim_def py_len_def
      fromHDU_def header_contains_def header_getitem_def
      np_empty_def read_float_def set_item_def Let_def)
  from vz_defined_when_3D [THEN conjunct1, rule_format, OF a]
    vz_defined_when_3D [THEN conjunct2, rule_format, OF b] a b
  show ?thesis by (simp add: ndim_def)
qed

text \<open>
  Counterexample to C4 as stated: a 2D Image constructed with \<open>vz=50.\<close> keeps that
  value, since the constructor stores \<open>vz\<close> without looking at the dimension.
\<close>

theorem Image_2D_with_vz_counterexample:
  "Image_init (PyArray (NdArray [2, 2] [1, 2, 3, 4])) (PyFloat 40)
      (PyFloat 468.6) (PyFloat 150) PyNone (PyFloat 50)
    = Inr \<lparr> data = NdArray [2, 2] [1, 2, 3, 4], vxy = PyFloat 40, vz = PyFloat 50,
            wave = NdArray [1] [468.6], gamma = NdArray [1] [150], scale = None \<rparr>
   \<and> ndim (NdArray [2, 2] [1, 2, 3, 4]) = 2"
  by (simp add: Image_init_def as_line_array_def scale_attr_def ndim_def py_len_def)

text \<open>
  Claim C7. \<open>Image.fromHDU\<close> raises \<open>DopplerError\<close> whenever one of the header fields
  \<open>VXY\<close>, \<open>NWAVE\<close>, \<open>WAVE1\<close>, \<open>GAMMA1\<close> is missing, and it returns an Image only when
  all four are present.
\<close>

theorem fromHDU_required_fields:
  "((\<not> header_contains (hdu_header h) ''VXY'' \<or> \<not> header_contains (hdu_header h) ''NWAVE''
     \<or> \<not> header_contains (hdu_header h) ''WAVE1'' \<or> \<not> header_contains (hdu_header h) ''GAMMA1'')
     \<longrightarrow> fromHDU h = Inl DopplerError)
   \<and> (fromHDU h = Inr img \<longrightarrow>
        header_contains (hdu_header h) ''VXY'' \<and> header_contains (hdu_header h) ''NWAVE''
      \<and> header_contains (hdu_header h) ''WAVE1'' \<and> header_contains (hdu_header h) ''GAMMA1'')"
proof (rule conjI; rule impI)
  assume "\<not> header_contains (hdu_header h) ''VXY'' \<or> \<not> header_contains (hdu_header h) ''NWAVE''
     \<or> \<not> header_contains (hdu_header h) ''WAVE1'' \<or> \<not> header_contains (hdu_header h) ''GAMMA1''"
  then show "fromHDU h = Inl DopplerError"
    by (auto simp: fromHDU_def Let_def)
next
  assume "fromHDU h = Inr img"
  then show "header_contains (hdu_header h) ''VXY'' \<and> header_contains (hdu_header h) ''NWAVE''
      \<and> header_contains (hdu_header h) ''WAVE1'' \<and> header_contains (hdu_header h) ''GAMMA1''"
    by (rule fromHDU_Inr) simp
qed

text \<open>
  Witness for C7: a header without \<open>GAMMA1\<close>, which is refused, and a complete header,
  from which an Image is built.
\<close>

theorem fromHDU_required_fields_witness:
  "\<not> header_contains [(''VXY'', PyFloat 40, []), (''NWAVE'', PyInt 1, []),
                        (''WAVE1'', PyFloat 468.6, [])] ''GAMMA1''
   \<and> fromHDU \<lparr> hdu_data = PyArray (NdArray [2, 2] [1, 2, 3, 4]),
            hdu_header = [(''VXY'', PyFloat 40, []), (''NWAVE'', PyInt 1, []),
                          (''WAVE1'', PyFloat 468.6, [])] \<rparr> = Inl DopplerError
   \<and> fromHDU \<lparr> hdu_data = PyArray (NdArray [2, 2] [1, 2, 3, 4]),
            hdu_header = [(''VXY'', PyFloat 40, []), (''NWAVE'', PyInt 1, []),
                          (''WAVE1'', PyFloat 468.6, []), (''GAMMA1'', PyFloat 150, [])] \<rparr>
    = Inr \<lparr> data = NdArray [2, 2] [1, 2, 3, 4], vxy = PyFloat 40, vz = PyNone,
            wave = NdArray [1] [468.6], gamma = NdArray [1] [150], scale = None \<rparr>
   \<and> header_contains [(''VXY'', PyFloat 40, []), (''NWAVE'', PyInt 1, []),
                          (''WAVE1'', PyFloat 468.6, []), (''GAMMA1'', PyFloat 150, [])] ''GAMMA1''"
proof -
  let ?bad = "\<lparr> hdu_data = PyArray (NdArray [2, 2] [1, 2, 3, 4]),
            hdu_header = [(''VXY'', PyFloat 40, []), (''NWAVE'', PyInt 1, []),
                          (''WAVE1'', PyFloat 468.6, [])] \<rparr>"
  have m: "\<not> header_contains (hdu_header ?bad) ''GAMMA1''"
    by (simp add: header_contains_def)
  have b: "fromHDU \<lparr> hdu_data = PyArray (NdArray [2, 2] [1, 2, 3, 4]),
            hdu_header = [(''VXY'', PyFloat 40, []), (''NWAVE'', PyInt 1, []),
                          (''WAVE1'', PyFloat 468.6, []), (''GAMMA1'', PyFloat 150, [])] \<rparr>
    = Inr \<lparr> data = NdArray [2, 2] [1, 2, 3, 4], vxy = PyFloat 40, vz = PyNone,
            wave = NdArray [1] [468.6], gamma = NdArray [1] [150], scale = None \<rparr>"
    by (simp add: Image_init_def as_line_array_def scale_attr_def ndim_def py_len_def
      fromHDU_def header_contains_def header_getitem_def
      np_empty_def read_float_def set_item_def Let_def)
  from fromHDU_required_fields [THEN conjunct1, of ?bad] m
  have "fromHDU ?bad = Inl DopplerError" by blast
  with m b fromHDU_required_fields [THEN conjunct2, rule_format, OF b]
  show ?thesis by simp
qed

section \<open>Facts about \<open>Map.__init__\<close>\<close>

lemma mset_add_commentary:
  "mset (add_commentary h kw txt) = mset h + {#(kw, PyStr txt None, [])#}"
proof -
  let ?P = "\<lambda>x. fst x \<noteq> kw"
  have "mset (takeWhile ?P (rev h)) + mset (dropWhile ?P (rev h)) = mset (rev h)"
    unfolding mset_append [symmetric] takeWhile_dropWhile_id ..
  then have "mset (rev (dropWhile ?P (rev h))) + mset (rev (takeWhile ?P (rev h))) = mset h"
    by (simp add: union_commute)
  then have "mset (rev (dropWhile ?P (rev h)) @ [(kw, PyStr txt None, [])]
                @ rev (takeWhile ?P (rev h))) = mset h + {#(kw, PyStr txt None, [])#}"
    by simp
  then show ?thesis
    by (simp add: add_commentary_def Let_def)
qed

lemma mset_add_provenance:
  "mset (add_provenance h) = mset h +
     {#([], PyStr ''............................'' None, []),
       (''COMMENT'', PyStr ''This file contains Doppler images.'' None, []),
       (''COMMENT'',
          PyStr ''Images can be 2D or 3D; VXY and VZ are the X,Y and Z velocity scales'' None, []),
       (''HISTORY'', PyStr ''Created from a doppler.Map object'' None, [])#}"
  by (simp add: add_provenance_def Let_def mset_add_commentary)

lemma Map_init_store:
  assumes "Map_init st head d = (st', r)"
  shows "(st' = st \<and> (\<forall>m. r \<noteq> Inr m))
       \<or> (\<exists>a. head = HeaderObj a \<and> a < length st \<and> st' = st @ [add_provenance (st ! a)]
              \<and> (\<forall>m. r = Inr m \<longrightarrow> map_head m = length st))"
proof (cases head)
  case OtherObj
  with assms show ?thesis by (auto simp: Map_init_def)
next
  case (HeaderObj a)
  show ?thesis
  proof (cases "a < length st")
    case False
    with assms HeaderObj show ?thesis by (auto simp: Map_init_def)
  next
    case True
    have "(st @ [st ! a])[length st := add_provenance ((st @ [st ! a]) ! length st)]
        = st @ [add_provenance (st ! a)]"
      by simp
    with assms HeaderObj True show ?thesis
      by (auto simp: Map_init_def header_copy_def Let_def
          split: data_arg.splits item.splits sum.splits)
  qed
qed

section \<open>Claim about \<open>Map.__init__\<close>\<close>

text \<open>
  Claim C10. \<open>Map.__init__\<close> never changes a header that existed before the call, the
  caller's header among them: the store it leaves behind begins with the old store.
  When it returns a Map, the Map's \<open>head\<close> is a new object, different from the header
  passed in, and its cards are those of the caller's header together with the blank,
  the two \<open>COMMENT\<close> and the \<open>HISTORY\<close> lines.
\<close>

theorem Map_init_keeps_callers_header:
  assumes "Map_init st head d = (st', r)"
  shows "take (length st) st' = st
       \<and> (\<forall>b<length st. st' ! b = st ! b)
       \<and> (\<forall>m. r = Inr m \<longrightarrow>
            (\<exists>a. head = HeaderObj a \<and> a < length st \<and> map_head m \<noteq> a
               \<and> map_head m = length st \<and> map_head m < length st'
               \<and> mset (st' ! map_head m) = mset (st ! a) +
                   {#([], PyStr ''............................'' None, []),
                     (''COMMENT'', PyStr ''This file contains Doppler images.'' None, []),
                     (''COMMENT'',
                        PyStr ''Images can be 2D or 3D; VXY and VZ are the X,Y and Z velocity scales''
                          None, []),
                     (''HISTORY'', PyStr ''Created from a doppler.Map object'' None, [])#}))"
proof -
  from Map_init_store [OF assms] show ?thesis
  proof
    assume "st' = st \<and> (\<forall>m. r \<noteq> Inr m)"
    then show ?thesis by simp
  next
    assume "\<exists>a. head = HeaderObj a \<and> a < length st \<and> st' = st @ [add_provenance (st ! a)]
              \<and> (\<forall>m. r = Inr m \<longrightarrow> map_head m = length st)"
    then obtain a where a: "head = HeaderObj a" "a < length st"
      and s: "st' = st @ [add_provenance (st ! a)]"
      and m: "\<forall>m. r = Inr m \<longrightarrow> map_head m = length st"
      by blast
    from s have "take (length st) st' = st" and "\<forall>b<length st. st' ! b = st ! b"
      by (simp_all add: nth_append)
    moreover from s have "st' ! length st = add_provenance (st ! a)" by simp
    ultimately show ?thesis using a s m
      by (auto simp: mset_add_provenance)
  qed
qed

text \<open>
  Witness for C10: the header of the module's self-test (\<open>OBJECT\<close>, \<open>TELESCOP\<close>) at
  address 0 and a list of one Image.
\<close>

theorem Map_init_keeps_callers_header_witness:
  "Map_init [[(''OBJECT'', PyStr ''IP Peg'' None, ''Object name''),
              (''TELESCOP'', PyStr ''William Herschel Telescope'' None, ''Telescope name'')]]
     (HeaderObj 0)
     (Iterable [ImageItem \<lparr> data = NdArray [2, 2] [1, 2, 3, 4], vxy = PyFloat 40, vz = PyNone,
            wave = NdArray [1] [468.6], gamma = NdArray [1] [150], scale = None \<rparr>])
   = ([[(''OBJECT'', PyStr ''IP Peg'' None, ''Object name''),
        (''TELESCOP'', PyStr ''William Herschel Telescope'' None, ''Telescope name'')],
       [(''OBJECT'', PyStr ''IP Peg'' None, ''Object name''),
        (''TELESCOP'', PyStr ''William Herschel Telescope'' None, ''Telescope name''),
        ([], PyStr ''............................'' None, []),
        (''COMMENT'', PyStr ''This file contains Doppler images.'' None, []),
        (''COMMENT'',
           PyStr ''Images can be 2D or 3D; VXY and VZ are the X,Y and Z velocity scales'' None, []),
        (''HISTORY'', PyStr ''Created from a doppler.Map object'' None, [])]],
      Inr \<lparr> map_head = 1,
            map_data = [\<lparr> data = NdArray [2, 2] [1, 2, 3, 4], vxy = PyFloat 40, vz = PyNone,
              wave = NdArray [1] [468.6], gamma = NdArray [1] [150], scale = None \<rparr>] \<rparr>)"
proof -
  let ?st = "[[(''OBJECT'', PyStr ''IP Peg'' None, ''Object name''),
              (''TELESCOP'', PyStr ''William Herschel Telescope'' None, ''Telescope name'')]]"
  let ?I = "\<lparr> data = NdArray [2, 2] [1, 2, 3, 4], vxy = PyFloat 40, vz = PyNone,
            wave = NdArray [1] [468.6], gamma = NdArray [1] [150], scale = None \<rparr>"
  have e: "Map_init ?st (HeaderObj 0) (Iterable [ImageItem ?I])
   = ([[(''OBJECT'', PyStr ''IP Peg'' None, ''Object name''),
        (''TELESCOP'', PyStr ''William Herschel Telescope'' None, ''Telescope name'')],
       [(''OBJECT'', PyStr ''IP Peg'' None, ''Object name''),
        (''TELESCOP'', PyStr ''William Herschel Telescope'' None, ''Telescope name''),
        ([], PyStr ''............................'' None, []),
        (''COMMENT'', PyStr ''This file contains Doppler images.'' None, []),
        (''COMMENT'',
           PyStr ''Images can be 2D or 3D; VXY and VZ are the X,Y and Z velocity scales'' None, []),
        (''HISTORY'', PyStr ''Created from a doppler.Map object'' None, [])]],
      Inr \<lparr> map_head = 1, map_data = [?I] \<rparr>)"
    by (simp add: Map_init_def header_copy_def add_provenance_def add_commentary_def Let_def)
  from Map_init_keeps_callers_header [OF e] e show ?thesis
    by simp
qed

section \<open>Facts about the command line of \<open>memit.py\<close>\<close>













section \<open>Claim about the command line of \<open>memit.py\<close>\<close>



end
